theory Spec2Isabelle
  imports Main "HOL-Library.Word"
begin

section \<open>The roster container: \<open>Dictionary<string, Player>\<close>\<close>

text \<open>
  \<open>GameRoom.Players\<close> is a \<open>System.Collections.Generic.Dictionary\<close>. \<open>LeaveRoom\<close>
  reads \<open>Players.Keys.First()\<close>, so the order of enumeration is part of the behaviour.
  The .NET dictionary keeps its entries in an array of slots: enumeration walks the
  slots by index and skips the vacated ones; \<open>Remove\<close> vacates the slot of the key and
  pushes its index on a free list; an insertion of a new key takes the index on top of
  the free list when there is one and the next unused index at the end otherwise; a
  store to an existing key overwrites the value in its slot.
\<close>

record ('k, 'v) dictionary =
  entries :: "('k \<times> 'v) option list"
  freeList :: "nat list"

definition d_empty :: "('k, 'v) dictionary" where
  "d_empty = \<lparr>entries = [], freeList = []\<rparr>"

fun occupied :: "'a option list \<Rightarrow> 'a list" where
  "occupied [] = []"
| "occupied (None # es) = occupied es"
| "occupied (Some x # es) = x # occupied es"

fun slot_of :: "'k \<Rightarrow> ('k \<times> 'v) option list \<Rightarrow> nat option" where
  "slot_of k [] = None"
| "slot_of k (None # es) = map_option Suc (slot_of k es)"
| "slot_of k (Some (k', v) # es) = (if k' = k then Some 0 else map_option Suc (slot_of k es))"

definition d_keys :: "('k, 'v) dictionary \<Rightarrow> 'k list" where
  "d_keys d = map fst (occupied (entries d))"

definition d_values :: "('k, 'v) dictionary \<Rightarrow> 'v list" where
  "d_values d = map snd (occupied (entries d))"

definition d_count :: "('k, 'v) dictionary \<Rightarrow> nat" where
  "d_count d = length (occupied (entries d))"

definition d_lookup :: "('k, 'v) dictionary \<Rightarrow> 'k \<Rightarrow> 'v option" where
  "d_lookup d = map_of (occupied (entries d))"

definition d_set :: "'k \<Rightarrow> 'v \<Rightarrow> ('k, 'v) dictionary \<Rightarrow> ('k, 'v) dictionary" where
  "d_set k v d =
     (case slot_of k (entries d) of
        Some i \<Rightarrow> d\<lparr>entries := (entries d)[i := Some (k, v)]\<rparr>
      | None \<Rightarrow>
          (case freeList d of
             [] \<Rightarrow> d\<lparr>entries := entries d @ [Some (k, v)]\<rparr>
           | i # fs \<Rightarrow> d\<lparr>entries := (entries d)[i := Some (k, v)], freeList := fs\<rparr>))"

definition d_remove :: "'k \<Rightarrow> ('k, 'v) dictionary \<Rightarrow> ('k, 'v) dictionary" where
  "d_remove k d =
     (case slot_of k (entries d) of
        Some i \<Rightarrow> d\<lparr>entries := (entries d)[i := None], freeList := i # freeList d\<rparr>
      | None \<Rightarrow> d)"

definition d_map_values :: "('v \<Rightarrow> 'v) \<Rightarrow> ('k, 'v) dictionary \<Rightarrow> ('k, 'v) dictionary" where
  "d_map_values f d = d\<lparr>entries := map (map_option (\<lambda>(k, v). (k, f v))) (entries d)\<rparr>"

text \<open>
  The representation invariant of the dictionary: no key sits in two slots, and the
  free list holds exactly the vacated slots, each once.
\<close>

definition d_wf :: "('k, 'v) dictionary \<Rightarrow> bool" where
  "d_wf d \<longleftrightarrow>
     distinct (d_keys d) \<and> distinct (freeList d) \<and>
     set (freeList d) = {i. i < length (entries d) \<and> entries d ! i = None}"

section \<open>Data model (Models/GameModels.cs)\<close>

datatype GameState = Waiting | InProgress | Finished

text \<open>\<open>Score\<close> is a C# \<open>int\<close>: 32 bits, two's complement, read with \<open>sint\<close>.\<close>

record Player =
  ConnectionId :: string
  Username :: string
  Score :: "32 word"
  FoundWords :: "string list"
  IsReady :: bool

type_synonym board = "char list list"

text \<open>
  Times are \<open>DateTime\<close> ticks (100 ns) as integers. \<open>Board\<close> is never null in the source:
  the property is initialised with \<open>new char[4, 4]\<close>, a grid of NUL characters.
\<close>

record GameRoom =
  RoomId :: string
  RoomName :: string
  HostConnectionId :: string
  Players :: "(string, Player) dictionary"
  Board :: board
  State :: GameState
  GameStartTime :: "int option"
  GameDurationSeconds :: int
  ValidWords :: "string set"

text \<open>The fields of the two snapshot classes carry the prefix \<open>dto\<close>.\<close>

record PlayerDto =
  dtoUsername :: string
  dtoScore :: "32 word"
  dtoIsReady :: bool
  dtoIsHost :: bool

record GameStateDto =
  dtoRoomId :: string
  dtoRoomName :: string
  dtoPlayers :: "PlayerDto list"
  dtoBoard :: "board option"
  dtoState :: GameState
  dtoRemainingSeconds :: "int option"

definition new_board :: board where
  "new_board = replicate 4 (replicate 4 (CHR 0x00))"

definition new_Player :: "string \<Rightarrow> string \<Rightarrow> Player" where
  "new_Player connectionId username =
     \<lparr>ConnectionId = connectionId, Username = username, Score = 0, FoundWords = [],
      IsReady = False\<rparr>"

section \<open>Strings, room codes and boards\<close>

text \<open>
  Strings are lists of 8-bit characters, so the model covers ASCII text: \<open>ToUpper\<close> maps
  \<open>a\<close>..\<open>z\<close> to \<open>A\<close>..\<open>Z\<close> and keeps every other character, and
  \<open>StringComparison.OrdinalIgnoreCase\<close> compares the upper-cased strings.
\<close>

definition ToUpperChar :: "char \<Rightarrow> char" where
  "ToUpperChar c =
     (case map_of (zip ''abcdefghijklmnopqrstuvwxyz'' ''ABCDEFGHIJKLMNOPQRSTUVWXYZ'') c of
        Some u \<Rightarrow> u
      | None \<Rightarrow> c)"

definition ToUpper :: "string \<Rightarrow> string" where
  "ToUpper w = map ToUpperChar w"

definition EqualsIgnoreCase :: "string \<Rightarrow> string \<Rightarrow> bool" where
  "EqualsIgnoreCase a b \<longleftrightarrow> ToUpper a = ToUpper b"

text \<open>
  The random source is a parameter: \<open>rnd i\<close> is the raw value behind the \<open>i\<close>-th call
  of \<open>Random.Next\<close>, and \<open>Next(n)\<close> returns it modulo \<open>n\<close>.
\<close>

definition chars :: string where
  "chars = ''ABCDEFGHJKLMNPQRSTUVWXYZ23456789''"

definition GenerateRoomId :: "(nat \<Rightarrow> nat) \<Rightarrow> string" where
  "GenerateRoomId rnd = map (\<lambda>i. chars ! (rnd i mod length chars)) [0, 1, 2, 3, 4, 5]"

definition BoggleDice :: "string list" where
  "BoggleDice =
     [''AAEEGN'', ''ABBJOO'', ''ACHOPS'', ''AFFKPS'',
      ''AOOTTW'', ''CIMOTU'', ''DEILRX'', ''DELRVY'',
      ''DISTTY'', ''EEGHNW'', ''EEINSU'', ''EHRTVW'',
      ''EIOSST'', ''ELRTTY'', ''HIMNQU'', ''HLNNRZ'']"

text \<open>
  \<open>GenerateBoard\<close>: \<open>OrderBy\<close> draws one key per die (calls 0 to 15) and sorts the dice
  stably by key; cell \<open>(row, col)\<close> then rolls die \<open>4 * row + col\<close> with the next call.
\<close>

definition shuffledDice :: "(nat \<Rightarrow> nat) \<Rightarrow> string list" where
  "shuffledDice rnd = map snd (sort_key fst (zip (map rnd [0 ..< 16]) BoggleDice))"

definition GenerateBoard :: "(nat \<Rightarrow> nat) \<Rightarrow> board" where
  "GenerateBoard rnd =
     map (\<lambda>row. map (\<lambda>col.
            (let die = shuffledDice rnd ! (4 * row + col)
             in die ! (rnd (16 + (4 * row + col)) mod length die)))
          [0, 1, 2, 3])
       [0, 1, 2, 3]"

definition ToJaggedArray :: "board \<Rightarrow> board" where
  "ToJaggedArray b =
     map (\<lambda>i. map (\<lambda>j. b ! i ! j) [0 ..< length (hd b)]) [0 ..< length b]"

section \<open>The registry (Services/GameService.cs)\<close>

text \<open>
  \<open>_rooms\<close> and \<open>_playerRooms\<close> are the two tables of the service. A room object is held
  by \<open>_rooms\<close> alone, under one key, and a player object by the roster of one room, so
  a mutation through a reference is an update of the table at the key the object was
  fetched from. Every operation takes the state and returns its result with the new state.
\<close>

record GameService =
  rooms :: "string \<rightharpoonup> GameRoom"
  playerRooms :: "string \<rightharpoonup> string"

definition new_GameService :: GameService where
  "new_GameService = \<lparr>rooms = Map.empty, playerRooms = Map.empty\<rparr>"

definition CreateRoom ::
  "(nat \<Rightarrow> nat) \<Rightarrow> string \<Rightarrow> string \<Rightarrow> string \<Rightarrow> GameService \<Rightarrow> GameRoom \<times> GameService" where
  "CreateRoom rnd roomName hostConnectionId hostUsername s =
     (let roomId = GenerateRoomId rnd;
          room = \<lparr>RoomId = roomId, RoomName = roomName, HostConnectionId = hostConnectionId,
                  Players = d_set hostConnectionId (new_Player hostConnectionId hostUsername) d_empty,
                  Board = new_board, State = Waiting, GameStartTime = None,
                  GameDurationSeconds = 180, ValidWords = {}\<rparr>
      in (room, s\<lparr>rooms := (rooms s)(roomId \<mapsto> room),
                   playerRooms := (playerRooms s)(hostConnectionId \<mapsto> roomId)\<rparr>))"

definition JoinRoom ::
  "string \<Rightarrow> string \<Rightarrow> string \<Rightarrow> GameService
     \<Rightarrow> (bool \<times> string \<times> GameRoom option) \<times> GameService" where
  "JoinRoom roomId connectionId username s =
     (case rooms s roomId of
        None \<Rightarrow> ((False, ''Room not found'', None), s)
      | Some room \<Rightarrow>
          if State room \<noteq> Waiting then ((False, ''Game already in progress'', None), s)
          else if d_count (Players room) \<ge> 8 then ((False, ''Room is full'', None), s)
          else if list_ex (\<lambda>p. EqualsIgnoreCase (Username p) username) (d_values (Players room))
            then ((False, ''Username already taken in this room'', None), s)
          else
            (let room' = room\<lparr>Players :=
                           d_set connectionId (new_Player connectionId username) (Players room)\<rparr>
             in ((True, ''Joined successfully'', Some room'),
                 s\<lparr>rooms := (rooms s)(roomId \<mapsto> room'),
                   playerRooms := (playerRooms s)(connectionId \<mapsto> roomId)\<rparr>)))"

text \<open>
  \<open>LeaveRoom\<close> removes the index entry first (\<open>TryRemove\<close>) and looks the room up after.
  \<open>Keys.First()\<close> is reached only when the roster is not empty, so it never throws and
  \<open>hd\<close> reads a non-empty list.
\<close>

definition LeaveRoom ::
  "string \<Rightarrow> GameService \<Rightarrow> (bool \<times> GameRoom option \<times> string option) \<times> GameService" where
  "LeaveRoom connectionId s =
     (case playerRooms s connectionId of
        None \<Rightarrow> ((False, None, None), s)
      | Some roomId \<Rightarrow>
          (let s1 = s\<lparr>playerRooms := (playerRooms s)(connectionId := None)\<rparr>
           in case rooms s1 roomId of
                None \<Rightarrow> ((False, None, None), s1)
              | Some room \<Rightarrow>
                  (let room1 = room\<lparr>Players := d_remove connectionId (Players room)\<rparr>
                   in if d_count (Players room1) = 0
                      then ((True, None, None), s1\<lparr>rooms := (rooms s1)(roomId := None)\<rparr>)
                      else if HostConnectionId room1 = connectionId
                      then (let newHostId = hd (d_keys (Players room1));
                                room2 = room1\<lparr>HostConnectionId := newHostId\<rparr>
                            in ((True, Some room2, Some newHostId),
                                s1\<lparr>rooms := (rooms s1)(roomId \<mapsto> room2)\<rparr>))
                      else ((True, Some room1, None),
                            s1\<lparr>rooms := (rooms s1)(roomId \<mapsto> room1)\<rparr>))))"

definition GetRoom :: "string \<Rightarrow> GameService \<Rightarrow> GameRoom option" where
  "GetRoom roomId s = rooms s roomId"

definition GetRoomByConnectionId :: "string \<Rightarrow> GameService \<Rightarrow> GameRoom option" where
  "GetRoomByConnectionId connectionId s =
     (case playerRooms s connectionId of
        None \<Rightarrow> None
      | Some roomId \<Rightarrow> GetRoom roomId s)"

text \<open>
  \<open>StartGame\<close> fetches the room with \<open>GetRoomByConnectionId\<close>; the lookup is written out
  to keep the key under which the mutated room is stored. \<open>now\<close> is \<open>DateTime.UtcNow\<close>.
\<close>

definition StartGame ::
  "(nat \<Rightarrow> nat) \<Rightarrow> int \<Rightarrow> string \<Rightarrow> GameService
     \<Rightarrow> (bool \<times> string \<times> GameRoom option) \<times> GameService" where
  "StartGame rnd now connectionId s =
     (case playerRooms s connectionId of
        None \<Rightarrow> ((False, ''Room not found'', None), s)
      | Some roomId \<Rightarrow>
          (case rooms s roomId of
             None \<Rightarrow> ((False, ''Room not found'', None), s)
           | Some room \<Rightarrow>
               if HostConnectionId room \<noteq> connectionId
               then ((False, ''Only the host can start the game'', None), s)
               else if d_count (Players room) < 1
               then ((False, ''Need at least 1 player to start'', None), s)
               else
                 (let room' = room\<lparr>Board := GenerateBoard rnd, State := InProgress,
                                   GameStartTime := Some now,
                                   Players := d_map_values (\<lambda>p. p\<lparr>Score := 0, FoundWords := []\<rparr>)
                                                (Players room)\<rparr>
                  in ((True, ''Game started'', Some room'),
                      s\<lparr>rooms := (rooms s)(roomId \<mapsto> room')\<rparr>))))"

text \<open>
  The elapsed time is a difference of ticks, converted to seconds and truncated towards
  zero by the cast to \<open>int\<close>.
\<close>

definition TotalSeconds :: "int \<Rightarrow> int" where
  "TotalSeconds ticks = sgn ticks * (\<bar>ticks\<bar> div 10000000)"

definition GetGameState :: "int \<Rightarrow> string \<Rightarrow> GameService \<Rightarrow> GameStateDto option" where
  "GetGameState now roomId s =
     (case GetRoom roomId s of
        None \<Rightarrow> None
      | Some room \<Rightarrow>
          (let remainingSeconds =
                 (if State room = InProgress \<and> GameStartTime room \<noteq> None
                  then Some (max 0 (GameDurationSeconds room
                                     - TotalSeconds (now - the (GameStartTime room))))
                  else None)
           in Some \<lparr>dtoRoomId = RoomId room, dtoRoomName = RoomName room,
                     dtoPlayers = map (\<lambda>p. \<lparr>dtoUsername = Username p, dtoScore = Score p,
                                              dtoIsReady = IsReady p,
                                              dtoIsHost = (ConnectionId p = HostConnectionId room)\<rparr>)
                                    (d_values (Players room)),
                     dtoBoard = (if State room = InProgress
                                 then Some (ToJaggedArray (Board room)) else None),
                     dtoState = State room,
                     dtoRemainingSeconds = remainingSeconds\<rparr>))"

definition EndGame :: "string \<Rightarrow> GameService \<Rightarrow> GameService" where
  "EndGame roomId s =
     (case rooms s roomId of
        Some room \<Rightarrow> s\<lparr>rooms := (rooms s)(roomId \<mapsto> room\<lparr>State := Finished\<rparr>)\<rparr>
      | None \<Rightarrow> s)"

definition ResetRoom :: "string \<Rightarrow> GameService \<Rightarrow> GameService" where
  "ResetRoom roomId s =
     (case rooms s roomId of
        Some room \<Rightarrow>
          s\<lparr>rooms := (rooms s)(roomId \<mapsto>
               room\<lparr>State := Waiting, Board := new_board, GameStartTime := None,
                    Players := d_map_values
                                 (\<lambda>p. p\<lparr>Score := 0, FoundWords := [], IsReady := False\<rparr>)
                                 (Players room)\<rparr>)\<rparr>
      | None \<Rightarrow> s)"

section \<open>The hub (GameHub)\<close>

text \<open>
  A hub method runs for the connection \<open>cid\<close> (\<open>Context.ConnectionId\<close>) and yields its
  reply, the notifications it sends and the new state of the service. The transport
  (group membership, delivery) is outside the model. The snapshots of one invocation
  read the clock at the same instant \<open>now\<close>.
\<close>

datatype target = Group string | OthersInGroup string

datatype notification =
    PlayerJoined string "GameStateDto option"
  | PlayerLeft string "string option" "GameStateDto option"
  | GameStarted "GameStateDto option"
  | GameEnded "GameStateDto option"
  | GameReset "GameStateDto option"
  | ScoreUpdated string "32 word" nat

text \<open>
  The replies are the anonymous objects of the source: \<open>Fail\<close> is
  \<open>{Success = false, Message}\<close>, the others carry \<open>Success = true\<close>.
  \<open>KeyNotFoundException\<close> stands for an invocation that the exception of the roster's
  indexer ends (\<open>SubmitWord\<close> has no handler).
\<close>

datatype reply =
    Fail string
  | RoomCreated string "GameStateDto option"
  | StateReply "GameStateDto option"
  | Done
  | ScoreReply "32 word"
  | KeyNotFoundException

type_synonym hub_result = "reply \<times> (target \<times> notification) list \<times> GameService"

definition OnDisconnectedAsync ::
  "int \<Rightarrow> string \<Rightarrow> GameService \<Rightarrow> (target \<times> notification) list \<times> GameService" where
  "OnDisconnectedAsync now cid s =
     (case LeaveRoom cid s of
        ((success, room, newHostId), s') \<Rightarrow>
          (case room of
             Some r \<Rightarrow>
               if success
               then ([(Group (RoomId r),
                       PlayerLeft cid newHostId (GetGameState now (RoomId r) s'))], s')
               else ([], s')
           | None \<Rightarrow> ([], s')))"

definition Hub_CreateRoom ::
  "(nat \<Rightarrow> nat) \<Rightarrow> int \<Rightarrow> string \<Rightarrow> string \<Rightarrow> string \<Rightarrow> GameService \<Rightarrow> hub_result" where
  "Hub_CreateRoom rnd now cid roomName username s =
     (case CreateRoom rnd roomName cid username s of
        (room, s') \<Rightarrow>
          (RoomCreated (RoomId room) (GetGameState now (RoomId room) s'), [], s'))"

definition Hub_JoinRoom :: "int \<Rightarrow> string \<Rightarrow> string \<Rightarrow> string \<Rightarrow> GameService \<Rightarrow> hub_result" where
  "Hub_JoinRoom now cid roomId username s =
     (case JoinRoom roomId cid username s of
        ((success, message, room), s') \<Rightarrow>
          if \<not> success then (Fail message, [], s')
          else (StateReply (GetGameState now roomId s'),
                [(OthersInGroup roomId, PlayerJoined username (GetGameState now roomId s'))],
                s'))"

text \<open>
  \<open>LeaveRoom\<close> of the hub answers \<open>Success = true\<close> whatever the service returned, once
  the caller's room was found.
\<close>

definition Hub_LeaveRoom :: "int \<Rightarrow> string \<Rightarrow> GameService \<Rightarrow> hub_result" where
  "Hub_LeaveRoom now cid s =
     (case GetRoomByConnectionId cid s of
        None \<Rightarrow> (Fail ''Not in a room'', [], s)
      | Some room \<Rightarrow>
          (let roomId = RoomId room
           in case LeaveRoom cid s of
                ((success, updatedRoom, newHostId), s') \<Rightarrow>
                  (Done,
                   if success \<and> updatedRoom \<noteq> None
                   then [(Group roomId, PlayerLeft cid newHostId (GetGameState now roomId s'))]
                   else [],
                   s')))"

text \<open>
  After a successful \<open>StartGame\<close> the hub schedules \<open>EndGameInternal\<close> for the room,
  \<open>GameDurationSeconds\<close> later; the model leaves the moment of that call to the caller of
  \<open>EndGameInternal\<close>. A successful result without a room would be a null dereference,
  which the handler of the method turns into a failure reply.
\<close>

definition Hub_StartGame :: "(nat \<Rightarrow> nat) \<Rightarrow> int \<Rightarrow> string \<Rightarrow> GameService \<Rightarrow> hub_result" where
  "Hub_StartGame rnd now cid s =
     (case StartGame rnd now cid s of
        ((success, message, room), s') \<Rightarrow>
          if \<not> success then (Fail message, [], s')
          else (case room of
                  None \<Rightarrow> (Fail ''Failed to start game'', [], s')
                | Some r \<Rightarrow>
                    (let gameState = GetGameState now (RoomId r) s'
                     in (StateReply gameState, [(Group (RoomId r), GameStarted gameState)], s'))))"

definition Hub_GetGameState :: "int \<Rightarrow> string \<Rightarrow> GameService \<Rightarrow> GameStateDto option" where
  "Hub_GetGameState now cid s =
     (case GetRoomByConnectionId cid s of
        None \<Rightarrow> None
      | Some room \<Rightarrow> GetGameState now (RoomId room) s)"

text \<open>
  \<open>SubmitWord\<close> mutates the player object of the caller in the roster of the caller's
  room. The score is increased in 32-bit arithmetic by \<open>Math.Max(1, word.Length - 2)\<close>.
\<close>

definition word_score :: "string \<Rightarrow> int" where
  "word_score w = max 1 (int (length w) - 2)"

definition SubmitWord :: "string \<Rightarrow> string \<Rightarrow> GameService \<Rightarrow> hub_result" where
  "SubmitWord cid w s =
     (case playerRooms s cid of
        None \<Rightarrow> (Fail ''Game not in progress'', [], s)
      | Some roomId \<Rightarrow>
          (case rooms s roomId of
             None \<Rightarrow> (Fail ''Game not in progress'', [], s)
           | Some room \<Rightarrow>
               if State room \<noteq> InProgress then (Fail ''Game not in progress'', [], s)
               else
                 (case d_lookup (Players room) cid of
                    None \<Rightarrow> (KeyNotFoundException, [], s)
                  | Some player \<Rightarrow>
                      if ToUpper w \<notin> set (FoundWords player)
                      then
                        (let player' = player\<lparr>FoundWords := FoundWords player @ [ToUpper w],
                                               Score := Score player + word_of_int (word_score w)\<rparr>;
                             room' = room\<lparr>Players := d_set cid player' (Players room)\<rparr>
                         in (ScoreReply (Score player'),
                             [(Group (RoomId room),
                               ScoreUpdated (Username player') (Score player')
                                 (length (FoundWords player')))],
                             s\<lparr>rooms := (rooms s)(roomId \<mapsto> room')\<rparr>))
                      else (ScoreReply (Score player), [], s))))"

definition ResetGame :: "int \<Rightarrow> string \<Rightarrow> GameService \<Rightarrow> hub_result" where
  "ResetGame now cid s =
     (case GetRoomByConnectionId cid s of
        None \<Rightarrow> (Fail ''Not in a room'', [], s)
      | Some room \<Rightarrow>
          if HostConnectionId room \<noteq> cid then (Fail ''Only the host can reset the game'', [], s)
          else
            (let s' = ResetRoom (RoomId room) s;
                 gameState = GetGameState now (RoomId room) s'
             in (StateReply gameState, [(Group (RoomId room), GameReset gameState)], s')))"

definition EndGameInternal ::
  "int \<Rightarrow> string \<Rightarrow> GameService \<Rightarrow> (target \<times> notification) list \<times> GameService" where
  "EndGameInternal now roomId s =
     (case GetRoom roomId s of
        None \<Rightarrow> ([], s)
      | Some room \<Rightarrow>
          if State room \<noteq> InProgress then ([], s)
          else
            (let s' = EndGame roomId s;
                 gameState = GetGameState now roomId s'
             in ([(Group roomId, GameEnded gameState)], s')))"

text \<open>The replies that report a failure to the caller.\<close>

fun failed :: "reply \<Rightarrow> bool" where
  "failed (Fail message) = True"
| "failed KeyNotFoundException = True"
| "failed other = False"

section \<open>Sequences of invocations\<close>

text \<open>
  What can happen to the service: a connection invokes a hub method, a connection
  drops, or the round timer of a room fires.
\<close>

datatype invocation =
    InvCreateRoom "nat \<Rightarrow> nat" string string
  | InvJoinRoom string string
  | InvLeaveRoom
  | InvStartGame "nat \<Rightarrow> nat"
  | InvResetGame
  | InvSubmitWord string
  | InvDisconnect
  | InvTimer string

fun step :: "int \<times> string \<times> invocation \<Rightarrow> GameService \<Rightarrow> GameService" where
  "step (now, cid, InvCreateRoom rnd roomName username) s =
     snd (snd (Hub_CreateRoom rnd now cid roomName username s))"
| "step (now, cid, InvJoinRoom roomId username) s = snd (snd (Hub_JoinRoom now cid roomId username s))"
| "step (now, cid, InvLeaveRoom) s = snd (snd (Hub_LeaveRoom now cid s))"
| "step (now, cid, InvStartGame rnd) s = snd (snd (Hub_StartGame rnd now cid s))"
| "step (now, cid, InvResetGame) s = snd (snd (ResetGame now cid s))"
| "step (now, cid, InvSubmitWord w) s = snd (snd (SubmitWord cid w s))"
| "step (now, cid, InvDisconnect) s = snd (OnDisconnectedAsync now cid s)"
| "step (now, cid, InvTimer roomId) s = snd (EndGameInternal now roomId s)"

fun run :: "(int \<times> string \<times> invocation) list \<Rightarrow> GameService \<Rightarrow> GameService" where
  "run [] s = s"
| "run (c # cs) s = run cs (step c s)"


section \<open>Index and rosters\<close>

text \<open>
  The roster of a live room is the list of the keys of its dictionary. The data model
  asks that a session is in the index iff it is in the roster of exactly one room.
\<close>

definition roster :: "GameService \<Rightarrow> string \<Rightarrow> string list option" where
  "roster s roomId = map_option (\<lambda>room. d_keys (Players room)) (rooms s roomId)"

definition in_roster :: "GameService \<Rightarrow> string \<Rightarrow> string \<Rightarrow> bool" where
  "in_roster s cid roomId \<longleftrightarrow> (\<exists>ks. roster s roomId = Some ks \<and> cid \<in> set ks)"

definition index_matches_rosters :: "GameService \<Rightarrow> bool" where
  "index_matches_rosters s \<longleftrightarrow>
     (\<forall>cid. cid \<in> dom (playerRooms s) \<longleftrightarrow> (\<exists>!roomId. in_roster s cid roomId))"

text \<open>The stronger form: the index names, for each session, the room that holds it.\<close>

definition lock_step :: "GameService \<Rightarrow> bool" where
  "lock_step s \<longleftrightarrow> (\<forall>cid roomId. playerRooms s cid = Some roomId \<longleftrightarrow> in_roster s cid roomId)"

definition rosters_wf :: "GameService \<Rightarrow> bool" where
  "rosters_wf s \<longleftrightarrow> (\<forall>roomId room. rooms s roomId = Some room \<longrightarrow> d_wf (Players room))"

text \<open>
  A run is guarded when a session creates or joins a room only while it has no index
  entry, and every creation draws a code that no live room has.
\<close>

fun allowed :: "int \<times> string \<times> invocation \<Rightarrow> GameService \<Rightarrow> bool" where
  "allowed (now, cid, InvCreateRoom rnd roomName username) s \<longleftrightarrow>
     playerRooms s cid = None \<and> rooms s (GenerateRoomId rnd) = None"
| "allowed (now, cid, InvJoinRoom roomId username) s \<longleftrightarrow> playerRooms s cid = None"
| "allowed (now, cid, other) s \<longleftrightarrow> True"

fun guarded :: "(int \<times> string \<times> invocation) list \<Rightarrow> GameService \<Rightarrow> bool" where
  "guarded [] s \<longleftrightarrow> True"
| "guarded (c # cs) s \<longleftrightarrow> allowed c s \<and> guarded cs (step c s)"

text \<open>
  The board of a room, as the room holds it: the blank grid of \<open>new char[4, 4]\<close> while
  the room waits, a generated board otherwise.
\<close>

definition board_matches_state :: "GameService \<Rightarrow> bool" where
  "board_matches_state s \<longleftrightarrow>
     (\<forall>roomId room. rooms s roomId = Some room \<longrightarrow>
        (Board room = new_board \<longleftrightarrow> State room = Waiting))"

section \<open>Scenarios\<close>

text \<open>
  Concrete random sources and runs of the service, used to evaluate the operations.
  \<open>rnd_A\<close> makes \<open>GenerateRoomId\<close> return \<open>AAAAAA\<close>, \<open>rnd_B\<close> makes it return \<open>BBBBBB\<close>.
\<close>

definition rnd_A :: "nat \<Rightarrow> nat" where
  "rnd_A i = 0"

definition rnd_B :: "nat \<Rightarrow> nat" where
  "rnd_B i = 1"

definition rnd_up :: "nat \<Rightarrow> nat" where
  "rnd_up i = i"

definition rnd_down :: "nat \<Rightarrow> nat" where
  "rnd_down i = 100 - i"

text \<open>Alice creates the room "Word Warriors"; then Bob joins it.\<close>

definition s_created :: GameService where
  "s_created = run [(0, ''a'', InvCreateRoom rnd_A ''Word Warriors'' ''alice'')] new_GameService"

definition s_lobby :: GameService where
  "s_lobby = run [(0, ''b'', InvJoinRoom ''AAAAAA'' ''bob'')] s_created"

text \<open>Alice starts the round; then Bob submits "cat".\<close>

definition s_round :: GameService where
  "s_round = run [(0, ''a'', InvStartGame rnd_up)] s_lobby"

definition s_scored :: GameService where
  "s_scored = run [(0, ''b'', InvSubmitWord ''cat'')] s_round"

text \<open>The round timer fires; then Alice resets the room.\<close>

definition s_finished :: GameService where
  "s_finished = run [(1800000000, ''a'', InvTimer ''AAAAAA'')] s_scored"

definition s_reset :: GameService where
  "s_reset = run [(1800000000, ''a'', InvResetGame)] s_finished"

text \<open>Alice leaves the room she created and is alone in: the room is deleted.\<close>

definition s_deleted :: GameService where
  "s_deleted = run [(0, ''a'', InvLeaveRoom)] s_created"

text \<open>
  Bob creates a room and the generator draws the code of Alice's room again; then Bob
  leaves.
\<close>

definition s_collided :: GameService where
  "s_collided = run [(0, ''b'', InvCreateRoom rnd_A ''Second'' ''bob'')] s_created"

definition s_dangling :: GameService where
  "s_dangling = run [(0, ''b'', InvLeaveRoom)] s_collided"

text \<open>Bob creates a room of his own, and Alice joins it without leaving hers.\<close>

definition s_two_rooms :: GameService where
  "s_two_rooms =
     run [(0, ''b'', InvCreateRoom rnd_B ''Second'' ''bob''),
          (0, ''a'', InvJoinRoom ''BBBBBB'' ''alice'')] s_created"

text \<open>Carol joins Alice and Bob; then Bob leaves and Dave joins.\<close>

definition s_three :: GameService where
  "s_three = run [(0, ''c'', InvJoinRoom ''AAAAAA'' ''carol'')] s_lobby"


text \<open>Six more players join Alice and Bob: the room holds eight.\<close>

definition s_full :: GameService where
  "s_full =
     run [(0, ''c'', InvJoinRoom ''AAAAAA'' ''carol''), (0, ''d'', InvJoinRoom ''AAAAAA'' ''dave''),
          (0, ''e'', InvJoinRoom ''AAAAAA'' ''erin''), (0, ''f'', InvJoinRoom ''AAAAAA'' ''frank''),
          (0, ''g'', InvJoinRoom ''AAAAAA'' ''grace''), (0, ''h'', InvJoinRoom ''AAAAAA'' ''heidi'')]
       s_lobby"

text \<open>
  Bob starts a round in the room that took the code of Alice's room: Alice is indexed
  to a room in progress whose roster does not hold her.
\<close>

definition s_stranger :: GameService where
  "s_stranger = run [(0, ''b'', InvStartGame rnd_up)] s_collided"

text \<open>
  Carol joins Alice's room; Bob creates a room of his own, and Alice, still the host of
  hers, joins it.
\<close>

definition s_host_elsewhere :: GameService where
  "s_host_elsewhere =
     run [(0, ''c'', InvJoinRoom ''AAAAAA'' ''carol''),
          (0, ''b'', InvCreateRoom rnd_B ''Second'' ''bob''),
          (0, ''a'', InvJoinRoom ''BBBBBB'' ''alice'')] s_created"


text \<open>
  The scenario of the specification as one run: Alice creates the room, Bob joins,
  Alice starts the round, Bob submits "cat", the timer ends the round, Alice leaves and
  Bob, the new host, resets the room.
\<close>

definition full_game :: "(int \<times> string \<times> invocation) list" where
  "full_game =
     [(0, ''a'', InvCreateRoom rnd_A ''Word Warriors'' ''alice''),
      (0, ''b'', InvJoinRoom ''AAAAAA'' ''bob''),
      (0, ''a'', InvStartGame rnd_up),
      (0, ''b'', InvSubmitWord ''cat''),
      (1800000000, ''a'', InvTimer ''AAAAAA''),
      (1800000000, ''a'', InvLeaveRoom),
      (1800000000, ''b'', InvResetGame)]"

section \<open>Evaluation\<close>

named_theorems ev \<open>the equations that evaluate the operations on concrete states\<close>

lemmas [ev] = rnd_A_def rnd_B_def rnd_up_def rnd_down_def new_GameService_def
  Hub_CreateRoom_def Hub_JoinRoom_def Hub_LeaveRoom_def Hub_StartGame_def ResetGame_def
  SubmitWord_def OnDisconnectedAsync_def EndGameInternal_def CreateRoom_def JoinRoom_def
  LeaveRoom_def StartGame_def GetRoom_def GetRoomByConnectionId_def EndGame_def ResetRoom_def
  d_set_def d_remove_def d_empty_def d_keys_def d_values_def d_count_def d_lookup_def
  d_map_values_def GenerateRoomId_def chars_def new_Player_def new_board_def
  EqualsIgnoreCase_def ToUpper_def ToUpperChar_def word_score_def Let_def

section \<open>Properties of the dictionary\<close>

lemma slot_of_SomeD:
  "slot_of k es = Some i \<Longrightarrow> i < length es \<and> (\<exists>v. es ! i = Some (k, v))"
  by (induction k es arbitrary: i rule: slot_of.induct) (auto split: if_splits)

lemma slot_of_None_iff: "slot_of k es = None \<longleftrightarrow> k \<notin> fst ` set (occupied es)"
  by (induction k es rule: slot_of.induct) (auto split: if_splits)

lemma set_occupied: "set (occupied es) = {x. Some x \<in> set es}"
  by (induction es rule: occupied.induct) auto

lemma length_occupied_le: "length (occupied es) \<le> length es"
  by (induction es rule: occupied.induct) auto

lemma occupied_append: "occupied (es @ fs) = occupied es @ occupied fs"
  by (induction es rule: occupied.induct) auto

lemma keys_vacate:
  "slot_of k es = Some i \<Longrightarrow>
   map fst (occupied (es[i := None])) = remove1 k (map fst (occupied es))"
  by (induction k es arbitrary: i rule: slot_of.induct) (auto split: if_splits)

lemma map_of_vacate:
  "slot_of k es = Some i \<Longrightarrow> distinct (map fst (occupied es)) \<Longrightarrow>
   map_of (occupied (es[i := None])) = (map_of (occupied es))(k := None)"
proof (induction k es arbitrary: i rule: slot_of.induct)
  case (1 k)
  then show ?case by simp
next
  case (2 k es)
  then show ?case by auto
next
  case (3 k k' v es)
  show ?case
  proof (cases "k' = k")
    case True
    with 3 have "k \<notin> fst ` set (occupied es)" by auto
    then have "map_of (occupied es) k = None"
      by (simp add: map_of_eq_None_iff)
    with True 3 show ?thesis by (auto simp: fun_upd_idem)
  next
    case False
    with 3 show ?thesis by (auto simp: fun_upd_twist)
  qed
qed

lemma keys_overwrite:
  "slot_of k es = Some i \<Longrightarrow>
   map fst (occupied (es[i := Some (k, v)])) = map fst (occupied es)"
  by (induction k es arbitrary: i rule: slot_of.induct) (auto split: if_splits)

lemma map_of_overwrite:
  "slot_of k es = Some i \<Longrightarrow>
   map_of (occupied (es[i := Some (k, v)])) = (map_of (occupied es))(k \<mapsto> v)"
  by (induction k es arbitrary: i rule: slot_of.induct) (auto split: if_splits simp: fun_upd_twist)

lemma occupied_fill:
  "i < length es \<Longrightarrow> es ! i = None \<Longrightarrow>
   occupied (es[i := Some x]) = occupied (take i es) @ x # occupied (drop (Suc i) es)"
proof (induction es arbitrary: i rule: occupied.induct)
  case 1
  then show ?case by simp
next
  case (2 es)
  then show ?case by (cases i) auto
next
  case (3 y es)
  then show ?case by (cases i) auto
qed

lemma occupied_take_drop:
  "i < length es \<Longrightarrow> es ! i = None \<Longrightarrow>
   occupied es = occupied (take i es) @ occupied (drop (Suc i) es)"
proof -
  assume a: "i < length es" "es ! i = None"
  have "es = take i es @ es ! i # drop (Suc i) es"
    using a(1) by (simp add: id_take_nth_drop)
  then have "occupied es = occupied (take i es @ None # drop (Suc i) es)"
    using a(2) by simp
  then show ?thesis by (simp add: occupied_append)
qed

lemma map_of_fill:
  assumes "i < length es" "es ! i = None" "k \<notin> fst ` set (occupied es)"
  shows "map_of (occupied (es[i := Some (k, v)])) = (map_of (occupied es))(k \<mapsto> v)"
proof -
  let ?a = "occupied (take i es)" and ?b = "occupied (drop (Suc i) es)"
  have o: "occupied es = ?a @ ?b" using assms by (simp add: occupied_take_drop)
  have k: "k \<notin> fst ` set ?a" using assms(3) o by auto
  then have "map_of ?a k = None" by (simp add: map_of_eq_None_iff)
  then have "map_of (?a @ (k, v) # ?b) = (map_of (?a @ ?b))(k \<mapsto> v)"
    by (auto simp: map_add_def fun_eq_iff split: option.splits)
  then show ?thesis using assms o by (simp add: occupied_fill)
qed

lemma map_of_push:
  assumes "k \<notin> fst ` set (occupied es)"
  shows "map_of (occupied (es @ [Some (k, v)])) = (map_of (occupied es))(k \<mapsto> v)"
proof -
  have "map_of (occupied es) k = None" using assms by (simp add: map_of_eq_None_iff)
  then show ?thesis
    by (auto simp: occupied_append map_add_def fun_eq_iff split: option.splits)
qed

lemma d_wf_empty: "d_wf d_empty"
  by (simp add: d_wf_def d_empty_def d_keys_def)

lemma d_count_keys: "d_count d = length (d_keys d)"
  by (simp add: d_count_def d_keys_def)

lemma d_keys_dom: "set (d_keys d) = dom (d_lookup d)"
  by (simp add: d_keys_def d_lookup_def dom_map_of_conv_image_fst)

lemma d_values_ran: "d_lookup d k = Some v \<Longrightarrow> v \<in> set (d_values d)"
  unfolding d_lookup_def d_values_def by (metis map_of_SomeD set_map image_eqI snd_conv)

lemma d_keys_remove: "d_keys (d_remove k d) = remove1 k (d_keys d)"
proof (cases "slot_of k (entries d)")
  case None
  then have "k \<notin> set (d_keys d)" by (simp add: slot_of_None_iff d_keys_def)
  then show ?thesis using None by (simp add: d_remove_def remove1_idem)
next
  case (Some i)
  then show ?thesis by (simp add: d_remove_def d_keys_def keys_vacate)
qed

lemma d_lookup_remove: "d_wf d \<Longrightarrow> d_lookup (d_remove k d) = (d_lookup d)(k := None)"
proof (cases "slot_of k (entries d)")
  case None
  then have "map_of (occupied (entries d)) k = None"
    by (simp add: slot_of_None_iff map_of_eq_None_iff)
  then show ?thesis using None by (auto simp: d_remove_def d_lookup_def fun_eq_iff)
next
  case (Some i)
  assume "d_wf d"
  then show ?thesis using Some
    by (auto simp: d_remove_def d_lookup_def d_wf_def d_keys_def map_of_vacate fun_eq_iff)
qed

lemma d_wf_remove: "d_wf d \<Longrightarrow> d_wf (d_remove k d)"
proof (cases "slot_of k (entries d)")
  case None
  assume "d_wf d"
  then show ?thesis using None by (simp add: d_remove_def)
next
  case (Some i)
  assume wf: "d_wf d"
  from Some have i: "i < length (entries d)" "\<exists>v. entries d ! i = Some (k, v)"
    using slot_of_SomeD by fastforce+
  have k: "distinct (d_keys (d_remove k d))"
    using wf by (simp add: d_keys_remove d_wf_def)
  have f: "i \<notin> set (freeList d)" using wf i by (auto simp: d_wf_def)
  have s: "{j. j < length (entries d) \<and> (entries d)[i := None] ! j = None} =
           insert i {j. j < length (entries d) \<and> entries d ! j = None}"
    using i by (auto simp: nth_list_update)
  show ?thesis
    unfolding d_wf_def using k f s wf Some
    by (auto simp: d_remove_def d_wf_def)
qed

lemma d_lookup_set: "d_wf d \<Longrightarrow> d_lookup (d_set k v d) = (d_lookup d)(k \<mapsto> v)"
proof (cases "slot_of k (entries d)")
  case (Some i)
  then show ?thesis by (simp add: d_set_def d_lookup_def map_of_overwrite)
next
  case None
  assume wf: "d_wf d"
  from None have k: "k \<notin> fst ` set (occupied (entries d))" by (simp add: slot_of_None_iff)
  show ?thesis
  proof (cases "freeList d")
    case Nil
    then show ?thesis using None k by (simp add: d_set_def d_lookup_def map_of_push)
  next
    case (Cons i fs)
    then have "i < length (entries d) \<and> entries d ! i = None"
      using wf by (auto simp: d_wf_def)
    then show ?thesis using None Cons k by (simp add: d_set_def d_lookup_def map_of_fill)
  qed
qed

lemma d_keys_set_member:
  "k \<in> set (d_keys d) \<Longrightarrow> d_keys (d_set k v d) = d_keys d"
proof -
  assume "k \<in> set (d_keys d)"
  then obtain i where "slot_of k (entries d) = Some i"
    using slot_of_None_iff [of k "entries d"] by (cases "slot_of k (entries d)") (auto simp: d_keys_def)
  then show ?thesis by (simp add: d_set_def d_keys_def keys_overwrite)
qed

lemma d_keys_set_push:
  "k \<notin> set (d_keys d) \<Longrightarrow> freeList d = [] \<Longrightarrow> d_keys (d_set k v d) = d_keys d @ [k]"
proof -
  assume a: "k \<notin> set (d_keys d)" "freeList d = []"
  then have "slot_of k (entries d) = None" by (simp add: slot_of_None_iff d_keys_def)
  then show ?thesis using a by (simp add: d_set_def d_keys_def occupied_append)
qed

lemma d_keys_set_fill:
  "k \<notin> set (d_keys d) \<Longrightarrow> freeList d = i # fs \<Longrightarrow> d_wf d \<Longrightarrow>
   d_keys (d_set k v d) =
     map fst (occupied (take i (entries d))) @ k # map fst (occupied (drop (Suc i) (entries d)))"
proof -
  assume a: "k \<notin> set (d_keys d)" "freeList d = i # fs" "d_wf d"
  then have n: "slot_of k (entries d) = None" by (simp add: slot_of_None_iff d_keys_def)
  from a have "i < length (entries d) \<and> entries d ! i = None" by (auto simp: d_wf_def)
  then show ?thesis using a n by (simp add: d_set_def d_keys_def occupied_fill)
qed

lemma d_wf_set: "d_wf d \<Longrightarrow> d_wf (d_set k v d)"
proof (cases "slot_of k (entries d)")
  case (Some i)
  assume wf: "d_wf d"
  from Some have i: "i < length (entries d)" "\<exists>v. entries d ! i = Some (k, v)"
    using slot_of_SomeD by fastforce+
  have s: "{j. j < length (entries d) \<and> (entries d)[i := Some (k, v)] ! j = None} =
           {j. j < length (entries d) \<and> entries d ! j = None}"
    using i by (auto simp: nth_list_update)
  show ?thesis using wf Some s
    by (simp add: d_set_def d_wf_def d_keys_def keys_overwrite)
next
  case None
  assume wf: "d_wf d"
  from None have k: "k \<notin> set (d_keys d)" by (simp add: slot_of_None_iff d_keys_def)
  show ?thesis
  proof (cases "freeList d")
    case Nil
    have s: "{j. j < Suc (length (entries d)) \<and> (entries d @ [Some (k, v)]) ! j = None} =
             {j. j < length (entries d) \<and> entries d ! j = None}"
      by (auto simp: nth_append less_Suc_eq)
    have "d_keys (d_set k v d) = d_keys d @ [k]" using k Nil by (rule d_keys_set_push)
    then have "distinct (d_keys (d_set k v d))" using wf k by (simp add: d_wf_def)
    then show ?thesis using wf Nil None s
      by (simp add: d_wf_def) (simp add: d_set_def)
  next
    case (Cons i fs)
    then have i: "i < length (entries d)" "entries d ! i = None" "i \<notin> set fs" "distinct fs"
      using wf by (auto simp: d_wf_def)
    have s: "{j. j < length (entries d) \<and> (entries d)[i := Some (k, v)] ! j = None} =
             {j. j < length (entries d) \<and> entries d ! j = None} - {i}"
      using i by (auto simp: nth_list_update)
    have "set (d_keys (d_set k v d)) = dom (d_lookup (d_set k v d))" by (rule d_keys_dom)
    have o: "occupied (entries d) =
             occupied (take i (entries d)) @ occupied (drop (Suc i) (entries d))"
      using i by (simp add: occupied_take_drop)
    have "d_keys (d_set k v d) =
       map fst (occupied (take i (entries d))) @ k # map fst (occupied (drop (Suc i) (entries d)))"
      using k Cons wf by (rule d_keys_set_fill)
    moreover have "distinct (map fst (occupied (take i (entries d))) @
                     map fst (occupied (drop (Suc i) (entries d))))"
      using wf o by (simp add: d_wf_def d_keys_def)
    moreover have "k \<notin> set (map fst (occupied (take i (entries d))) @
                     map fst (occupied (drop (Suc i) (entries d))))"
      using k o by (simp add: d_keys_def)
    ultimately have dk: "distinct (d_keys (d_set k v d))" by auto
    have "set fs = set (freeList d) - {i}" using Cons i by auto
    then have fs: "set fs = {j. j < length (entries d) \<and> entries d ! j = None} - {i}"
      using wf by (simp add: d_wf_def)
    have e: "d_set k v d = d\<lparr>entries := (entries d)[i := Some (k, v)], freeList := fs\<rparr>"
      using None Cons by (simp add: d_set_def)
    show ?thesis
      unfolding d_wf_def using dk i(4) fs s by (simp add: e)
  qed
qed

lemma occupied_map:
  "occupied (map (map_option (\<lambda>(k, v). (k, f v))) es) = map (\<lambda>(k, v). (k, f v)) (occupied es)"
  by (induction es rule: occupied.induct) auto

lemma d_keys_map_values: "d_keys (d_map_values f d) = d_keys d"
  by (simp add: d_keys_def d_map_values_def occupied_map comp_def case_prod_beta)

lemma d_values_map_values: "d_values (d_map_values f d) = map f (d_values d)"
  by (simp add: d_values_def d_map_values_def occupied_map comp_def case_prod_beta)

lemma d_count_map_values: "d_count (d_map_values f d) = d_count d"
  by (simp add: d_count_keys d_keys_map_values)

lemma d_lookup_map_values: "d_lookup (d_map_values f d) k = map_option f (d_lookup d k)"
proof -
  have "map_of (map (\<lambda>(k, v). (k, f v)) xs) k = map_option f (map_of xs k)" for xs
    by (induction xs) auto
  then show ?thesis by (simp add: d_lookup_def d_map_values_def occupied_map)
qed

lemma d_wf_map_values: "d_wf d \<Longrightarrow> d_wf (d_map_values f d)"
proof -
  assume wf: "d_wf d"
  have "{i. i < length (entries d) \<and> map (map_option (\<lambda>(k, v). (k, f v))) (entries d) ! i = None} =
        {i. i < length (entries d) \<and> entries d ! i = None}"
    by auto
  then show ?thesis using wf
    by (simp add: d_wf_def d_keys_map_values) (simp add: d_map_values_def)
qed

section \<open>The scenarios, evaluated\<close>

lemma s_created_eval:
  "s_created =
  \<lparr>rooms =
     [''AAAAAA'' \<mapsto>
      \<lparr>RoomId = ''AAAAAA'', RoomName = ''Word Warriors'',
         HostConnectionId = ''a'',
         Players =
           \<lparr>entries =
              [Some
                (''a'',
                 \<lparr>ConnectionId = ''a'', Username = ''alice'', Score = 0,
                    FoundWords = [], IsReady = False\<rparr>)],
              freeList = []\<rparr>,
         Board = new_board, State = Waiting,
         GameStartTime = None, GameDurationSeconds = 180,
         ValidWords = {}\<rparr>],
     playerRooms = [''a'' \<mapsto> ''AAAAAA'']\<rparr>"
  by (simp add: s_created_def ev)

lemma s_lobby_eval:
  "s_lobby =
  \<lparr>rooms =
     [''AAAAAA'' \<mapsto>
      \<lparr>RoomId = ''AAAAAA'', RoomName = ''Word Warriors'',
         HostConnectionId = ''a'',
         Players =
           \<lparr>entries =
              [Some
                (''a'',
                 \<lparr>ConnectionId = ''a'', Username = ''alice'', Score = 0,
                    FoundWords = [], IsReady = False\<rparr>),
               Some
                (''b'',
                 \<lparr>ConnectionId = ''b'', Username = ''bob'', Score = 0,
                    FoundWords = [], IsReady = False\<rparr>)],
              freeList = []\<rparr>,
         Board = new_board, State = Waiting,
         GameStartTime = None, GameDurationSeconds = 180,
         ValidWords = {}\<rparr>],
     playerRooms = [''a'' \<mapsto> ''AAAAAA'', ''b'' \<mapsto> ''AAAAAA'']\<rparr>"
  by (simp add: s_lobby_def s_created_eval ev)

lemma s_round_eval:
  "s_round =
  \<lparr>rooms =
     [''AAAAAA'' \<mapsto>
      \<lparr>RoomId = ''AAAAAA'', RoomName = ''Word Warriors'',
         HostConnectionId = ''a'',
         Players =
           \<lparr>entries =
              [Some
                (''a'',
                 \<lparr>ConnectionId = ''a'', Username = ''alice'', Score = 0,
                    FoundWords = [], IsReady = False\<rparr>),
               Some
                (''b'',
                 \<lparr>ConnectionId = ''b'', Username = ''bob'', Score = 0,
                    FoundWords = [], IsReady = False\<rparr>)],
              freeList = []\<rparr>,
         Board = GenerateBoard rnd_up, State = InProgress,
         GameStartTime = Some 0, GameDurationSeconds = 180,
         ValidWords = {}\<rparr>],
     playerRooms = [''a'' \<mapsto> ''AAAAAA'', ''b'' \<mapsto> ''AAAAAA'']\<rparr>"
  by (simp add: s_round_def s_lobby_eval ev)

lemma s_scored_eval:
  "s_scored =
  \<lparr>rooms =
     [''AAAAAA'' \<mapsto>
      \<lparr>RoomId = ''AAAAAA'', RoomName = ''Word Warriors'',
         HostConnectionId = ''a'',
         Players =
           \<lparr>entries =
              [Some
                (''a'',
                 \<lparr>ConnectionId = ''a'', Username = ''alice'', Score = 0,
                    FoundWords = [], IsReady = False\<rparr>),
               Some
                (''b'',
                 \<lparr>ConnectionId = ''b'', Username = ''bob'', Score = 1,
                    FoundWords = [''CAT''], IsReady = False\<rparr>)],
              freeList = []\<rparr>,
         Board = GenerateBoard rnd_up, State = InProgress,
         GameStartTime = Some 0, GameDurationSeconds = 180,
         ValidWords = {}\<rparr>],
     playerRooms = [''a'' \<mapsto> ''AAAAAA'', ''b'' \<mapsto> ''AAAAAA'']\<rparr>"
  by (simp add: s_scored_def s_round_eval ev)

lemma s_finished_eval:
  "s_finished =
  \<lparr>rooms =
     [''AAAAAA'' \<mapsto>
      \<lparr>RoomId = ''AAAAAA'', RoomName = ''Word Warriors'',
         HostConnectionId = ''a'',
         Players =
           \<lparr>entries =
              [Some
                (''a'',
                 \<lparr>ConnectionId = ''a'', Username = ''alice'', Score = 0,
                    FoundWords = [], IsReady = False\<rparr>),
               Some
                (''b'',
                 \<lparr>ConnectionId = ''b'', Username = ''bob'', Score = 1,
                    FoundWords = [''CAT''], IsReady = False\<rparr>)],
              freeList = []\<rparr>,
         Board = GenerateBoard rnd_up, State = Finished,
         GameStartTime = Some 0, GameDurationSeconds = 180,
         ValidWords = {}\<rparr>],
     playerRooms = [''a'' \<mapsto> ''AAAAAA'', ''b'' \<mapsto> ''AAAAAA'']\<rparr>"
  by (simp add: s_finished_def s_scored_eval ev)

lemma s_reset_eval:
  "s_reset =
  \<lparr>rooms =
     [''AAAAAA'' \<mapsto>
      \<lparr>RoomId = ''AAAAAA'', RoomName = ''Word Warriors'',
         HostConnectionId = ''a'',
         Players =
           \<lparr>entries =
              [Some
                (''a'',
                 \<lparr>ConnectionId = ''a'', Username = ''alice'', Score = 0,
                    FoundWords = [], IsReady = False\<rparr>),
               Some
                (''b'',
                 \<lparr>ConnectionId = ''b'', Username = ''bob'', Score = 0,
                    FoundWords = [], IsReady = False\<rparr>)],
              freeList = []\<rparr>,
         Board = new_board, State = Waiting,
         GameStartTime = None, GameDurationSeconds = 180,
         ValidWords = {}\<rparr>],
     playerRooms = [''a'' \<mapsto> ''AAAAAA'', ''b'' \<mapsto> ''AAAAAA'']\<rparr>"
  by (simp add: s_reset_def s_finished_eval ev)

lemma s_deleted_eval:
  "s_deleted = \<lparr>rooms = Map.empty, playerRooms = Map.empty\<rparr>"
  by (simp add: s_deleted_def s_created_eval ev)

lemma s_collided_eval:
  "s_collided =
  \<lparr>rooms =
     [''AAAAAA'' \<mapsto>
      \<lparr>RoomId = ''AAAAAA'', RoomName = ''Second'',
         HostConnectionId = ''b'',
         Players =
           \<lparr>entries =
              [Some
                (''b'',
                 \<lparr>ConnectionId = ''b'', Username = ''bob'', Score = 0,
                    FoundWords = [], IsReady = False\<rparr>)],
              freeList = []\<rparr>,
         Board = new_board, State = Waiting,
         GameStartTime = None, GameDurationSeconds = 180,
         ValidWords = {}\<rparr>],
     playerRooms = [''a'' \<mapsto> ''AAAAAA'', ''b'' \<mapsto> ''AAAAAA'']\<rparr>"
  by (simp add: s_collided_def s_created_eval ev)

lemma s_dangling_eval:
  "s_dangling = \<lparr>rooms = Map.empty, playerRooms = [''a'' \<mapsto> ''AAAAAA'']\<rparr>"
  by (simp add: s_dangling_def s_collided_eval ev)

lemma s_two_rooms_eval:
  "s_two_rooms =
  \<lparr>rooms =
     [''AAAAAA'' \<mapsto>
      \<lparr>RoomId = ''AAAAAA'', RoomName = ''Word Warriors'',
         HostConnectionId = ''a'',
         Players =
           \<lparr>entries =
              [Some
                (''a'',
                 \<lparr>ConnectionId = ''a'', Username = ''alice'', Score = 0,
                    FoundWords = [], IsReady = False\<rparr>)],
              freeList = []\<rparr>,
         Board = new_board, State = Waiting,
         GameStartTime = None, GameDurationSeconds = 180,
         ValidWords = {}\<rparr>,
      ''BBBBBB'' \<mapsto>
      \<lparr>RoomId = ''BBBBBB'', RoomName = ''Second'',
         HostConnectionId = ''b'',
         Players =
           \<lparr>entries =
              [Some
                (''b'',
                 \<lparr>ConnectionId = ''b'', Username = ''bob'', Score = 0,
                    FoundWords = [], IsReady = False\<rparr>),
               Some
                (''a'',
                 \<lparr>ConnectionId = ''a'', Username = ''alice'', Score = 0,
                    FoundWords = [], IsReady = False\<rparr>)],
              freeList = []\<rparr>,
         Board = new_board, State = Waiting,
         GameStartTime = None, GameDurationSeconds = 180,
         ValidWords = {}\<rparr>],
     playerRooms = [''b'' \<mapsto> ''BBBBBB'', ''a'' \<mapsto> ''BBBBBB'']\<rparr>"
  by (simp add: s_two_rooms_def s_created_eval ev)



lemma s_full_eval:
  "s_full =
  \<lparr>rooms =
     [''AAAAAA'' \<mapsto>
      \<lparr>RoomId = ''AAAAAA'', RoomName = ''Word Warriors'',
         HostConnectionId = ''a'',
         Players =
           \<lparr>entries =
              [Some
                (''a'',
                 \<lparr>ConnectionId = ''a'', Username = ''alice'', Score = 0,
                    FoundWords = [], IsReady = False\<rparr>),
               Some
                (''b'',
                 \<lparr>ConnectionId = ''b'', Username = ''bob'', Score = 0,
                    FoundWords = [], IsReady = False\<rparr>),
               Some
                (''c'',
                 \<lparr>ConnectionId = ''c'', Username = ''carol'', Score = 0,
                    FoundWords = [], IsReady = False\<rparr>),
               Some
                (''d'',
                 \<lparr>ConnectionId = ''d'', Username = ''dave'', Score = 0,
                    FoundWords = [], IsReady = False\<rparr>),
               Some
                (''e'',
                 \<lparr>ConnectionId = ''e'', Username = ''erin'', Score = 0,
                    FoundWords = [], IsReady = False\<rparr>),
               Some
                (''f'',
                 \<lparr>ConnectionId = ''f'', Username = ''frank'', Score = 0,
                    FoundWords = [], IsReady = False\<rparr>),
               Some
                (''g'',
                 \<lparr>ConnectionId = ''g'', Username = ''grace'', Score = 0,
                    FoundWords = [], IsReady = False\<rparr>),
               Some
                (''h'',
                 \<lparr>ConnectionId = ''h'', Username = ''heidi'', Score = 0,
                    FoundWords = [], IsReady = False\<rparr>)],
              freeList = []\<rparr>,
         Board = new_board, State = Waiting,
         GameStartTime = None, GameDurationSeconds = 180,
         ValidWords = {}\<rparr>],
     playerRooms =
       [''a'' \<mapsto> ''AAAAAA'', ''b'' \<mapsto> ''AAAAAA'', ''c'' \<mapsto> ''AAAAAA'',
        ''d'' \<mapsto> ''AAAAAA'', ''e'' \<mapsto> ''AAAAAA'', ''f'' \<mapsto> ''AAAAAA'',
        ''g'' \<mapsto> ''AAAAAA'', ''h'' \<mapsto> ''AAAAAA'']\<rparr>"
  by (simp add: s_full_def s_lobby_eval ev)

lemma s_stranger_eval:
  "s_stranger =
   \<lparr>rooms =
      [''AAAAAA'' \<mapsto>
       \<lparr>RoomId = ''AAAAAA'', RoomName = ''Second'', HostConnectionId = ''b'',
          Players = \<lparr>entries = [Some (''b'', new_Player ''b'' ''bob'')], freeList = []\<rparr>,
          Board = GenerateBoard rnd_up, State = InProgress,
          GameStartTime = Some 0, GameDurationSeconds = 180, ValidWords = {}\<rparr>],
      playerRooms = [''a'' \<mapsto> ''AAAAAA'', ''b'' \<mapsto> ''AAAAAA'']\<rparr>"
  by (simp add: s_stranger_def s_collided_eval ev)

lemma s_host_elsewhere_eval:
  "s_host_elsewhere =
   \<lparr>rooms =
      [''AAAAAA'' \<mapsto>
       \<lparr>RoomId = ''AAAAAA'', RoomName = ''Word Warriors'', HostConnectionId = ''a'',
          Players = \<lparr>entries = [Some (''a'', new_Player ''a'' ''alice''),
                                Some (''c'', new_Player ''c'' ''carol'')], freeList = []\<rparr>,
          Board = new_board, State = Waiting, GameStartTime = None,
          GameDurationSeconds = 180, ValidWords = {}\<rparr>,
       ''BBBBBB'' \<mapsto>
       \<lparr>RoomId = ''BBBBBB'', RoomName = ''Second'', HostConnectionId = ''b'',
          Players = \<lparr>entries = [Some (''b'', new_Player ''b'' ''bob''),
                                Some (''a'', new_Player ''a'' ''alice'')], freeList = []\<rparr>,
          Board = new_board, State = Waiting, GameStartTime = None,
          GameDurationSeconds = 180, ValidWords = {}\<rparr>],
      playerRooms = [''c'' \<mapsto> ''AAAAAA'', ''b'' \<mapsto> ''BBBBBB'', ''a'' \<mapsto> ''BBBBBB'']\<rparr>"
  by (simp add: s_host_elsewhere_def s_created_eval ev)


section \<open>Leaving a room\<close>

lemma occupied_map_Some: "occupied (map Some kvs) = kvs"
  by (induction kvs) auto

lemma d_wf_full: "distinct (map fst kvs) \<Longrightarrow> d_wf \<lparr>entries = map Some kvs, freeList = []\<rparr>"
  by (simp add: d_wf_def d_keys_def occupied_map_Some)

lemma remaining_member:
  assumes "c \<noteq> cid" "c \<in> set (d_keys d)"
  shows "d_keys (d_remove cid d) \<noteq> []" "d_count (d_remove cid d) \<noteq> 0"
proof -
  have "c \<in> set (remove1 cid (d_keys d))" using assms by simp
  then show "d_keys (d_remove cid d) \<noteq> []" by (auto simp: d_keys_remove)
  then show "d_count (d_remove cid d) \<noteq> 0" by (simp add: d_count_keys)
qed

lemma LeaveRoom_host:
  assumes "playerRooms s cid = Some roomId" "rooms s roomId = Some room"
    "HostConnectionId room = cid" "c \<noteq> cid" "c \<in> set (d_keys (Players room))"
  shows "LeaveRoom cid s =
    ((True,
      Some (room\<lparr>Players := d_remove cid (Players room),
                  HostConnectionId := hd (d_keys (d_remove cid (Players room)))\<rparr>),
      Some (hd (d_keys (d_remove cid (Players room))))),
     s\<lparr>playerRooms := (playerRooms s)(cid := None),
       rooms := (rooms s)(roomId \<mapsto>
         room\<lparr>Players := d_remove cid (Players room),
              HostConnectionId := hd (d_keys (d_remove cid (Players room)))\<rparr>)\<rparr>)"
  using assms remaining_member(2) [of c cid "Players room"]
  by (simp add: LeaveRoom_def Let_def)

section \<open>Host succession\<close>

lemma LeaveRoom_other_room:
  "playerRooms s cid \<noteq> Some roomId \<Longrightarrow> rooms (snd (LeaveRoom cid s)) roomId = rooms s roomId"
  by (auto simp: LeaveRoom_def Let_def split: option.splits)

text \<open>
  C7 as stated speaks of every \<open>LeaveRoom\<close> call by the current host of a room.
  \<open>LeaveRoom\<close> removes the caller from the room that the index names for the caller,
  which need not be the room the caller is host of: Alice, host of her room with Carol
  in it, has joined Bob's room and is indexed to it. Her call succeeds, returns Bob's
  room and no new host, and her own room still has her as its host and in its roster.
\<close>

theorem host_indexed_elsewhere_counterexample:
  "map_option (\<lambda>r. (HostConnectionId r, d_keys (Players r))) (rooms s_host_elsewhere ''AAAAAA'') =
     Some (''a'', [''a'', ''c'']) \<and>
   fst (fst (LeaveRoom ''a'' s_host_elsewhere)) = True \<and>
   map_option RoomId (fst (snd (fst (LeaveRoom ''a'' s_host_elsewhere)))) = Some ''BBBBBB'' \<and>
   snd (snd (fst (LeaveRoom ''a'' s_host_elsewhere))) = None \<and>
   map_option (\<lambda>r. (HostConnectionId r, d_keys (Players r)))
     (rooms (snd (LeaveRoom ''a'' s_host_elsewhere)) ''AAAAAA'') = Some (''a'', [''a'', ''c''])"
  by (simp add: s_host_elsewhere_eval LeaveRoom_def d_keys_def d_remove_def d_count_def Let_def)

text \<open>
  C7, amended. When the host of a room leaves it, that is, when the index names this
  room for the caller, and another member remains, \<open>LeaveRoom\<close> succeeds, the new host
  it returns is a key of the roster after the removal (and is not the leaver), and the
  room it returns, which is the room stored in the table, has that player as its host.
  The roster is taken well-formed, as the roster of every room of a reachable state is
  (\<open>reachable_d_wf\<close>). A call by a host whom the index places in another room does not
  touch the room (\<open>LeaveRoom_other_room\<close>).
\<close>

theorem LeaveRoom_host_hands_over:
  assumes idx: "playerRooms s cid = Some roomId"
    and room: "rooms s roomId = Some room"
    and wf: "d_wf (Players room)"
    and host: "HostConnectionId room = cid"
    and other: "\<exists>c. c \<noteq> cid \<and> c \<in> set (d_keys (Players room))"
  shows "\<exists>room' newHostId s'.
           LeaveRoom cid s = ((True, Some room', Some newHostId), s') \<and>
           newHostId \<in> set (d_keys (Players room')) \<and> newHostId \<noteq> cid \<and>
           HostConnectionId room' = newHostId \<and>
           rooms s' roomId = Some room' \<and>
           Players room' = d_remove cid (Players room)"
proof -
  from other obtain c where c: "c \<noteq> cid" "c \<in> set (d_keys (Players room))" by blast
  let ?d = "d_remove cid (Players room)"
  let ?h = "hd (d_keys ?d)"
  have ne: "d_keys ?d \<noteq> []" using c by (rule remaining_member(1))
  then have mem: "?h \<in> set (d_keys ?d)" by simp
  have "distinct (d_keys (Players room))" using wf by (simp add: d_wf_def)
  then have "cid \<notin> set (d_keys ?d)" by (simp add: d_keys_remove)
  with mem have neq: "?h \<noteq> cid" by auto
  show ?thesis
    using LeaveRoom_host [OF idx room host c] mem neq by simp
qed

theorem LeaveRoom_host_hands_over_witness:
  "playerRooms s_lobby ''a'' = Some ''AAAAAA'' \<and>
   (\<exists>room. rooms s_lobby ''AAAAAA'' = Some room \<and> d_wf (Players room) \<and>
      HostConnectionId room = ''a'' \<and> ''b'' \<in> set (d_keys (Players room))) \<and>
   (\<exists>room' s'. LeaveRoom ''a'' s_lobby = ((True, Some room', Some ''b''), s') \<and>
      d_keys (Players room') = [''b''] \<and> HostConnectionId room' = ''b'' \<and>
      rooms s' ''AAAAAA'' = Some room')"
proof -
  obtain room where room: "rooms s_lobby ''AAAAAA'' = Some room"
    by (simp add: s_lobby_eval)
  have idx: "playerRooms s_lobby ''a'' = Some ''AAAAAA''" by (simp add: s_lobby_eval)
  have wf: "d_wf (Players room)"
    using room d_wf_full [of "[(''a'', new_Player ''a'' ''alice''), (''b'', new_Player ''b'' ''bob'')]"]
    by (auto simp: s_lobby_eval new_Player_def)
  have host: "HostConnectionId room = ''a''" using room by (auto simp: s_lobby_eval)
  have b: "''b'' \<in> set (d_keys (Players room))" using room by (auto simp: s_lobby_eval d_keys_def)
  then have other: "\<exists>c. c \<noteq> ''a'' \<and> c \<in> set (d_keys (Players room))" by (intro exI [of _ "''b''"]) simp
  obtain room' newHostId s' where l: "LeaveRoom ''a'' s_lobby = ((True, Some room', Some newHostId), s')"
      "newHostId \<in> set (d_keys (Players room'))" "HostConnectionId room' = newHostId"
      "rooms s' ''AAAAAA'' = Some room'" "Players room' = d_remove ''a'' (Players room)"
    using LeaveRoom_host_hands_over [OF idx room wf host other] by blast
  have k: "d_keys (Players room') = [''b'']"
    using room l(5) by (auto simp: s_lobby_eval d_keys_def d_remove_def)
  then have "newHostId = ''b''" using l(2) by simp
  then show ?thesis using idx room wf host b l k by auto
qed




section \<open>The round timer\<close>

text \<open>
  C9. When the round timer fires for a room that is gone or is not in progress,
  \<open>EndGameInternal\<close> returns without a notification and leaves the service as it was.
  The function has no failing branch.
\<close>

theorem round_timer_noop:
  assumes "GetRoom roomId s = None \<or> (\<exists>room. GetRoom roomId s = Some room \<and> State room \<noteq> InProgress)"
  shows "EndGameInternal now roomId s = ([], s)"
  using assms by (auto simp: EndGameInternal_def)

theorem round_timer_noop_witness:
  "map_option State (GetRoom ''AAAAAA'' s_reset) = Some Waiting \<and>
   EndGameInternal 3600000000 ''AAAAAA'' s_reset = ([], s_reset) \<and>
   GetRoom ''AAAAAA'' s_deleted = None \<and>
   EndGameInternal 3600000000 ''AAAAAA'' s_deleted = ([], s_deleted)"
proof -
  have r: "map_option State (GetRoom ''AAAAAA'' s_reset) = Some Waiting"
    by (simp add: s_reset_eval GetRoom_def)
  then have "\<exists>room. GetRoom ''AAAAAA'' s_reset = Some room \<and> State room \<noteq> InProgress"
    by auto
  then have 1: "EndGameInternal 3600000000 ''AAAAAA'' s_reset = ([], s_reset)"
    using round_timer_noop [of "''AAAAAA''" s_reset 3600000000] by blast
  have d: "GetRoom ''AAAAAA'' s_deleted = None"
    by (simp add: s_deleted_eval GetRoom_def)
  then have 2: "EndGameInternal 3600000000 ''AAAAAA'' s_deleted = ([], s_deleted)"
    using round_timer_noop [of "''AAAAAA''" s_deleted 3600000000] by blast
  show ?thesis using r 1 d 2 by simp
qed

section \<open>Word submission\<close>









lemma length_ToUpper: "length (ToUpper w) = length w"
  by (simp add: ToUpper_def)





section \<open>Joining a room\<close>

lemma d_count_set:
  assumes "d_wf d"
  shows "d_count (d_set k v d) = (if k \<in> set (d_keys d) then d_count d else Suc (d_count d))"
proof -
  have wf': "d_wf (d_set k v d)" using assms by (rule d_wf_set)
  have s: "set (d_keys (d_set k v d)) = insert k (set (d_keys d))"
    using assms by (simp add: d_keys_dom d_lookup_set)
  have "d_count (d_set k v d) = card (set (d_keys (d_set k v d)))"
    using wf' by (simp add: d_count_keys d_wf_def distinct_card)
  moreover have "d_count d = card (set (d_keys d))"
    using assms by (simp add: d_count_keys d_wf_def distinct_card)
  ultimately show ?thesis using s by (simp add: insert_absorb)
qed

lemma JoinRoom_success:
  assumes "rooms s roomId = Some room" "State room = Waiting" "d_count (Players room) < 8"
    "\<forall>p\<in>set (d_values (Players room)). ToUpper (Username p) \<noteq> ToUpper name"
  shows "JoinRoom roomId cid name s =
    ((True, ''Joined successfully'',
      Some (room\<lparr>Players := d_set cid (new_Player cid name) (Players room)\<rparr>)),
     s\<lparr>rooms := (rooms s)(roomId \<mapsto>
          room\<lparr>Players := d_set cid (new_Player cid name) (Players room)\<rparr>),
       playerRooms := (playerRooms s)(cid \<mapsto> roomId)\<rparr>)"
  using assms by (simp add: JoinRoom_def list_ex_iff EqualsIgnoreCase_def Let_def)

text \<open>
  C6 as stated says that a successful join adds exactly one new player to the roster.
  \<open>JoinRoom\<close> does not look whether the session is in the roster already: when Alice,
  alone in her room, joins it again under another name, the call succeeds, her player
  object is replaced and the roster still has one entry.
\<close>

theorem JoinRoom_rejoin_counterexample:
  "fst (JoinRoom ''AAAAAA'' ''a'' ''alicia'' s_created) = 
     (True, ''Joined successfully'',
      map_option (\<lambda>r. r\<lparr>Players := \<lparr>entries = [Some (''a'', new_Player ''a'' ''alicia'')], freeList = []\<rparr>\<rparr>) (rooms s_created ''AAAAAA'')) \<and>
   map_option (d_count \<circ> Players) (rooms s_created ''AAAAAA'') = Some 1 \<and>
   map_option (d_count \<circ> Players)
     (rooms (snd (JoinRoom ''AAAAAA'' ''a'' ''alicia'' s_created)) ''AAAAAA'') = Some 1"
  by (simp add: s_created_eval ev list_ex_iff)

text \<open>
  C6, amended. \<open>JoinRoom\<close> fails with "Room not found" for an unknown code; for a known
  room, with "Game already in progress" when the state is not \<open>Waiting\<close>, else with
  "Room is full" when the roster has 8 players or more, else with "Username already
  taken in this room" when a member's name equals the given one up to case; in each
  failure the service is unchanged. Otherwise it succeeds: it stores a fresh player for
  the session in the roster (one entry more when the session was not a member, the
  session's entry replaced when it was), indexes the session to the room and returns the
  room.
\<close>

theorem JoinRoom_outcomes:
  "(rooms s roomId = None \<longrightarrow>
      JoinRoom roomId cid name s = ((False, ''Room not found'', None), s)) \<and>
   (\<forall>room. rooms s roomId = Some room \<longrightarrow>
      (State room \<noteq> Waiting \<longrightarrow>
         JoinRoom roomId cid name s = ((False, ''Game already in progress'', None), s)) \<and>
      (State room = Waiting \<and> 8 \<le> d_count (Players room) \<longrightarrow>
         JoinRoom roomId cid name s = ((False, ''Room is full'', None), s)) \<and>
      (State room = Waiting \<and> d_count (Players room) < 8 \<and>
       (\<exists>p\<in>set (d_values (Players room)). ToUpper (Username p) = ToUpper name) \<longrightarrow>
         JoinRoom roomId cid name s =
           ((False, ''Username already taken in this room'', None), s)) \<and>
      (State room = Waiting \<and> d_count (Players room) < 8 \<and>
       (\<forall>p\<in>set (d_values (Players room)). ToUpper (Username p) \<noteq> ToUpper name) \<and>
       d_wf (Players room) \<longrightarrow>
         (\<exists>room'. JoinRoom roomId cid name s =
              ((True, ''Joined successfully'', Some room'),
               s\<lparr>rooms := (rooms s)(roomId \<mapsto> room'),
                 playerRooms := (playerRooms s)(cid \<mapsto> roomId)\<rparr>) \<and>
            room' = room\<lparr>Players := Players room'\<rparr> \<and>
            d_lookup (Players room') = (d_lookup (Players room))(cid \<mapsto> new_Player cid name) \<and>
            d_count (Players room') =
              (if cid \<in> set (d_keys (Players room)) then d_count (Players room)
               else d_count (Players room) + 1))))"
proof -
  have none: "rooms s roomId = None \<longrightarrow>
      JoinRoom roomId cid name s = ((False, ''Room not found'', None), s)"
    by (simp add: JoinRoom_def)
  have some: "(State room \<noteq> Waiting \<longrightarrow>
         JoinRoom roomId cid name s = ((False, ''Game already in progress'', None), s)) \<and>
      (State room = Waiting \<and> 8 \<le> d_count (Players room) \<longrightarrow>
         JoinRoom roomId cid name s = ((False, ''Room is full'', None), s)) \<and>
      (State room = Waiting \<and> d_count (Players room) < 8 \<and>
       (\<exists>p\<in>set (d_values (Players room)). ToUpper (Username p) = ToUpper name) \<longrightarrow>
         JoinRoom roomId cid name s =
           ((False, ''Username already taken in this room'', None), s)) \<and>
      (State room = Waiting \<and> d_count (Players room) < 8 \<and>
       (\<forall>p\<in>set (d_values (Players room)). ToUpper (Username p) \<noteq> ToUpper name) \<and>
       d_wf (Players room) \<longrightarrow>
         (\<exists>room'. JoinRoom roomId cid name s =
              ((True, ''Joined successfully'', Some room'),
               s\<lparr>rooms := (rooms s)(roomId \<mapsto> room'),
                 playerRooms := (playerRooms s)(cid \<mapsto> roomId)\<rparr>) \<and>
            room' = room\<lparr>Players := Players room'\<rparr> \<and>
            d_lookup (Players room') = (d_lookup (Players room))(cid \<mapsto> new_Player cid name) \<and>
            d_count (Players room') =
              (if cid \<in> set (d_keys (Players room)) then d_count (Players room)
               else d_count (Players room) + 1)))"
    if room: "rooms s roomId = Some room" for room
  proof (intro conjI impI)
    assume "State room \<noteq> Waiting"
    then show "JoinRoom roomId cid name s = ((False, ''Game already in progress'', None), s)"
      using room by (simp add: JoinRoom_def)
  next
    assume "State room = Waiting \<and> 8 \<le> d_count (Players room)"
    then show "JoinRoom roomId cid name s = ((False, ''Room is full'', None), s)"
      using room by (simp add: JoinRoom_def)
  next
    assume "State room = Waiting \<and> d_count (Players room) < 8 \<and>
       (\<exists>p\<in>set (d_values (Players room)). ToUpper (Username p) = ToUpper name)"
    then show "JoinRoom roomId cid name s =
           ((False, ''Username already taken in this room'', None), s)"
      using room by (auto simp: JoinRoom_def list_ex_iff EqualsIgnoreCase_def)
  next
    assume a: "State room = Waiting \<and> d_count (Players room) < 8 \<and>
       (\<forall>p\<in>set (d_values (Players room)). ToUpper (Username p) \<noteq> ToUpper name) \<and>
       d_wf (Players room)"
    let ?room = "room\<lparr>Players := d_set cid (new_Player cid name) (Players room)\<rparr>"
    have "JoinRoom roomId cid name s =
              ((True, ''Joined successfully'', Some ?room),
               s\<lparr>rooms := (rooms s)(roomId \<mapsto> ?room),
                 playerRooms := (playerRooms s)(cid \<mapsto> roomId)\<rparr>)"
      using JoinRoom_success [OF room, of name cid] a by simp
    moreover have "?room = room\<lparr>Players := Players ?room\<rparr>" by simp
    moreover have "d_lookup (Players ?room) = (d_lookup (Players room))(cid \<mapsto> new_Player cid name)"
      using a by (simp add: d_lookup_set)
    moreover have "d_count (Players ?room) =
              (if cid \<in> set (d_keys (Players room)) then d_count (Players room)
               else d_count (Players room) + 1)"
      using a by (simp add: d_count_set)
    ultimately show "\<exists>room'. JoinRoom roomId cid name s =
              ((True, ''Joined successfully'', Some room'),
               s\<lparr>rooms := (rooms s)(roomId \<mapsto> room'),
                 playerRooms := (playerRooms s)(cid \<mapsto> roomId)\<rparr>) \<and>
            room' = room\<lparr>Players := Players room'\<rparr> \<and>
            d_lookup (Players room') = (d_lookup (Players room))(cid \<mapsto> new_Player cid name) \<and>
            d_count (Players room') =
              (if cid \<in> set (d_keys (Players room)) then d_count (Players room)
               else d_count (Players room) + 1)"
      by (intro exI [of _ ?room] conjI)
  qed
  show ?thesis
    by (rule conjI [OF none], intro allI impI, rule some)
qed

theorem JoinRoom_outcomes_witness:
  "rooms s_created ''ZZZZZZ'' = None \<and>
   JoinRoom ''ZZZZZZ'' ''b'' ''bob'' s_created = ((False, ''Room not found'', None), s_created) \<and>
   map_option State (rooms s_round ''AAAAAA'') = Some InProgress \<and>
   JoinRoom ''AAAAAA'' ''c'' ''carol'' s_round =
     ((False, ''Game already in progress'', None), s_round) \<and>
   map_option (\<lambda>r. (State r, d_count (Players r))) (rooms s_full ''AAAAAA'') = Some (Waiting, 8) \<and>
   JoinRoom ''AAAAAA'' ''i'' ''ivan'' s_full = ((False, ''Room is full'', None), s_full) \<and>
   map_option (\<lambda>r. (State r, d_count (Players r), map Username (d_values (Players r))))
     (rooms s_lobby ''AAAAAA'') = Some (Waiting, 2, [''alice'', ''bob'']) \<and>
   ToUpper ''bob'' = ToUpper ''BOB'' \<and>
   JoinRoom ''AAAAAA'' ''c'' ''BOB'' s_lobby =
     ((False, ''Username already taken in this room'', None), s_lobby) \<and>
   ToUpper ''alice'' \<noteq> ToUpper ''carol'' \<and> ToUpper ''bob'' \<noteq> ToUpper ''carol'' \<and>
   (\<exists>room'. JoinRoom ''AAAAAA'' ''c'' ''carol'' s_lobby =
        ((True, ''Joined successfully'', Some room'), s_three) \<and>
      d_lookup (Players room') ''c'' = Some (new_Player ''c'' ''carol'') \<and>
      d_count (Players room') = 3)"
proof -
  have up: "ToUpper ''bob'' = ToUpper ''BOB''" "ToUpper ''alice'' \<noteq> ToUpper ''carol''"
      "ToUpper ''bob'' \<noteq> ToUpper ''carol''"
    by (simp_all add: ToUpper_def ToUpperChar_def)
  have h1: "rooms s_created ''ZZZZZZ'' = None" by (simp add: s_created_eval)
  have c1: "JoinRoom ''ZZZZZZ'' ''b'' ''bob'' s_created =
      ((False, ''Room not found'', None), s_created)"
    using JoinRoom_outcomes [of s_created "''ZZZZZZ''" "''b''" "''bob''", THEN conjunct1] h1
    by (rule mp)
  obtain r2 where r2: "rooms s_round ''AAAAAA'' = Some r2" by (simp add: s_round_eval)
  have h2: "State r2 \<noteq> Waiting" "map_option State (rooms s_round ''AAAAAA'') = Some InProgress"
    using r2 by (auto simp: s_round_eval)
  have c2: "JoinRoom ''AAAAAA'' ''c'' ''carol'' s_round =
      ((False, ''Game already in progress'', None), s_round)"
    using JoinRoom_outcomes [of s_round "''AAAAAA''" "''c''" "''carol''", THEN conjunct2,
        rule_format, OF r2, THEN conjunct1] h2(1)
    by (rule mp)
  obtain r3 where r3: "rooms s_full ''AAAAAA'' = Some r3" by (simp add: s_full_eval)
  have h3: "State r3 = Waiting \<and> 8 \<le> d_count (Players r3)"
      "map_option (\<lambda>r. (State r, d_count (Players r))) (rooms s_full ''AAAAAA'') = Some (Waiting, 8)"
    using r3 by (auto simp: s_full_eval d_count_def)
  have c3: "JoinRoom ''AAAAAA'' ''i'' ''ivan'' s_full = ((False, ''Room is full'', None), s_full)"
    using JoinRoom_outcomes [of s_full "''AAAAAA''" "''i''" "''ivan''", THEN conjunct2,
        rule_format, OF r3, THEN conjunct2, THEN conjunct1] h3(1)
    by (rule mp)
  obtain r4 where r4: "rooms s_lobby ''AAAAAA'' = Some r4" by (simp add: s_lobby_eval)
  have names: "map Username (d_values (Players r4)) = [''alice'', ''bob'']"
    using r4 by (auto simp: s_lobby_eval d_values_def)
  have cnt: "State r4 = Waiting" "d_count (Players r4) = 2"
    using r4 by (auto simp: s_lobby_eval d_count_def)
  have h4: "map_option (\<lambda>r. (State r, d_count (Players r), map Username (d_values (Players r))))
     (rooms s_lobby ''AAAAAA'') = Some (Waiting, 2, [''alice'', ''bob''])"
    using r4 names cnt by simp
  have taken: "\<exists>p\<in>set (d_values (Players r4)). ToUpper (Username p) = ToUpper ''BOB''"
    using r4 by (auto simp: s_lobby_eval d_values_def ToUpper_def ToUpperChar_def)
  have c4: "JoinRoom ''AAAAAA'' ''c'' ''BOB'' s_lobby =
      ((False, ''Username already taken in this room'', None), s_lobby)"
    using JoinRoom_outcomes [of s_lobby "''AAAAAA''" "''c''" "''BOB''", THEN conjunct2,
        rule_format, OF r4, THEN conjunct2, THEN conjunct2, THEN conjunct1] cnt taken
    by simp
  have free: "\<forall>p\<in>set (d_values (Players r4)). ToUpper (Username p) \<noteq> ToUpper ''carol''"
    using r4 by (auto simp: s_lobby_eval d_values_def ToUpper_def ToUpperChar_def)
  have wf: "d_wf (Players r4)"
    using r4 d_wf_full [of "[(''a'', new_Player ''a'' ''alice''), (''b'', new_Player ''b'' ''bob'')]"]
    by (auto simp: s_lobby_eval new_Player_def)
  have keys: "''c'' \<notin> set (d_keys (Players r4))"
    using r4 by (auto simp: s_lobby_eval d_keys_def)
  obtain room' :: GameRoom where c5:
      "JoinRoom ''AAAAAA'' ''c'' ''carol'' s_lobby =
         ((True, ''Joined successfully'', Some room'),
          s_lobby\<lparr>rooms := (rooms s_lobby)(''AAAAAA'' \<mapsto> room'),
                  playerRooms := (playerRooms s_lobby)(''c'' \<mapsto> ''AAAAAA'')\<rparr>)"
      "d_lookup (Players room') = (d_lookup (Players r4))(''c'' \<mapsto> new_Player ''c'' ''carol'')"
      "d_count (Players room') =
         (if ''c'' \<in> set (d_keys (Players r4)) then d_count (Players r4)
          else d_count (Players r4) + 1)"
    using JoinRoom_outcomes [of s_lobby "''AAAAAA''" "''c''" "''carol''", THEN conjunct2,
        rule_format, OF r4, THEN conjunct2, THEN conjunct2, THEN conjunct2] cnt free wf
    by auto
  have st: "snd (JoinRoom ''AAAAAA'' ''c'' ''carol'' s_lobby) = s_three"
    by (simp add: s_three_def Hub_JoinRoom_def split: prod.splits)
  have "JoinRoom ''AAAAAA'' ''c'' ''carol'' s_lobby =
        ((True, ''Joined successfully'', Some room'), s_three) \<and>
      d_lookup (Players room') ''c'' = Some (new_Player ''c'' ''carol'') \<and>
      d_count (Players room') = 3"
    using c5 st keys cnt by simp
  then have c5': "\<exists>room'. JoinRoom ''AAAAAA'' ''c'' ''carol'' s_lobby =
        ((True, ''Joined successfully'', Some room'), s_three) \<and>
      d_lookup (Players room') ''c'' = Some (new_Player ''c'' ''carol'') \<and>
      d_count (Players room') = 3"
    by (rule exI [of _ room'])
  from h1 c1 h2(2) c2 h3(2) c3 h4 up(1) c4 up(2) up(3) c5' show ?thesis
    by (intro conjI)
qed

section \<open>Creating a room\<close>

lemma GenerateRoomId_alphabet: "length (GenerateRoomId rnd) = 6 \<and> set (GenerateRoomId rnd) \<subseteq> set chars"
proof -
  have "length chars = 32" by (simp add: chars_def)
  then have "chars ! (n mod length chars) \<in> set chars" for n
    by (intro nth_mem) simp
  then show ?thesis by (simp add: GenerateRoomId_def)
qed

text \<open>
  C1 as stated says that the code returned by \<open>CreateRoom\<close> is unique among the live
  rooms, a collision being retried. \<open>CreateRoom\<close> stores the room under whatever code
  \<open>GenerateRoomId\<close> returns: when Bob's call draws the code of Alice's live room, the
  call returns that code, Bob's room takes the place of Alice's in the table, and
  Alice's session stays indexed to the code.
\<close>

theorem CreateRoom_collision_counterexample:
  "map_option (\<lambda>r. (RoomName r, d_keys (Players r))) (rooms s_created ''AAAAAA'') =
     Some (''Word Warriors'', [''a'']) \<and>
   RoomId (fst (CreateRoom rnd_A ''Second'' ''b'' ''bob'' s_created)) = ''AAAAAA'' \<and>
   map_option (\<lambda>r. (RoomName r, d_keys (Players r)))
     (rooms (snd (CreateRoom rnd_A ''Second'' ''b'' ''bob'' s_created)) ''AAAAAA'') =
     Some (''Second'', [''b'']) \<and>
   playerRooms (snd (CreateRoom rnd_A ''Second'' ''b'' ''bob'' s_created)) ''a'' = Some ''AAAAAA''"
  by (simp add: s_created_eval CreateRoom_def GenerateRoomId_def chars_def rnd_A_def
      d_keys_def d_set_def d_empty_def Let_def)

text \<open>
  C1, amended. \<open>CreateRoom\<close> draws one code of six characters of the alphabet and
  registers the new room under it, without a retry: the table after the call is the
  table before it with the new room stored at that code. When no live room has the
  code, every live room stays registered and the returned code differs from the code of
  each of them.
\<close>

theorem CreateRoom_registers:
  "\<exists>room. CreateRoom rnd roomName cid username s =
       (room, s\<lparr>rooms := (rooms s)(GenerateRoomId rnd \<mapsto> room),
                playerRooms := (playerRooms s)(cid \<mapsto> GenerateRoomId rnd)\<rparr>) \<and>
     RoomId room = GenerateRoomId rnd \<and>
     length (RoomId room) = 6 \<and> set (RoomId room) \<subseteq> set chars \<and>
     State room = Waiting \<and> HostConnectionId room = cid \<and> d_keys (Players room) = [cid] \<and>
     (rooms s (GenerateRoomId rnd) = None \<longrightarrow>
        (\<forall>rid r. rooms s rid = Some r \<longrightarrow>
           rid \<noteq> RoomId room \<and>
           rooms (snd (CreateRoom rnd roomName cid username s)) rid = Some r))"
proof -
  let ?room = "\<lparr>RoomId = GenerateRoomId rnd, RoomName = roomName, HostConnectionId = cid,
      Players = d_set cid (new_Player cid username) d_empty,
      Board = new_board, State = Waiting, GameStartTime = None,
      GameDurationSeconds = 180, ValidWords = {}\<rparr>"
  have e: "CreateRoom rnd roomName cid username s =
       (?room, s\<lparr>rooms := (rooms s)(GenerateRoomId rnd \<mapsto> ?room),
                playerRooms := (playerRooms s)(cid \<mapsto> GenerateRoomId rnd)\<rparr>)"
    by (simp add: CreateRoom_def Let_def)
  have k: "d_keys (Players ?room) = [cid]"
    by (simp add: d_keys_def d_set_def d_empty_def)
  have f: "rooms s (GenerateRoomId rnd) = None \<longrightarrow>
        (\<forall>rid r. rooms s rid = Some r \<longrightarrow>
           rid \<noteq> RoomId ?room \<and>
           rooms (snd (CreateRoom rnd roomName cid username s)) rid = Some r)"
    by (auto simp: e)
  show ?thesis
    using e k f GenerateRoomId_alphabet [of rnd] by (intro exI [of _ ?room]) simp
qed

theorem CreateRoom_registers_witness:
  "rooms s_created (GenerateRoomId rnd_B) = None \<and>
   map_option RoomName (rooms s_created ''AAAAAA'') = Some ''Word Warriors'' \<and>
   (\<exists>room. CreateRoom rnd_B ''Second'' ''b'' ''bob'' s_created =
       (room, s_created\<lparr>rooms := (rooms s_created)(''BBBBBB'' \<mapsto> room),
                        playerRooms := (playerRooms s_created)(''b'' \<mapsto> ''BBBBBB'')\<rparr>) \<and>
      RoomId room = ''BBBBBB'') \<and>
   ''AAAAAA'' \<noteq> ''BBBBBB'' \<and>
   map_option RoomName (rooms (snd (CreateRoom rnd_B ''Second'' ''b'' ''bob'' s_created)) ''AAAAAA'') =
     Some ''Word Warriors''"
proof -
  have g: "GenerateRoomId rnd_B = ''BBBBBB''"
    by (simp add: GenerateRoomId_def chars_def rnd_B_def)
  have h: "rooms s_created (GenerateRoomId rnd_B) = None" by (simp add: g s_created_eval)
  obtain r where r: "rooms s_created ''AAAAAA'' = Some r" by (simp add: s_created_eval)
  have n: "map_option RoomName (rooms s_created ''AAAAAA'') = Some ''Word Warriors''"
    by (simp add: s_created_eval)
  obtain room :: GameRoom where t:
      "CreateRoom rnd_B ''Second'' ''b'' ''bob'' s_created =
       (room, s_created\<lparr>rooms := (rooms s_created)(GenerateRoomId rnd_B \<mapsto> room),
                playerRooms := (playerRooms s_created)(''b'' \<mapsto> GenerateRoomId rnd_B)\<rparr>)"
      "RoomId room = GenerateRoomId rnd_B"
      "rooms s_created (GenerateRoomId rnd_B) = None \<longrightarrow>
        (\<forall>rid r. rooms s_created rid = Some r \<longrightarrow>
           rid \<noteq> RoomId room \<and>
           rooms (snd (CreateRoom rnd_B ''Second'' ''b'' ''bob'' s_created)) rid = Some r)"
    using CreateRoom_registers [of rnd_B "''Second''" "''b''" "''bob''" s_created] by auto
  have kept: "''AAAAAA'' \<noteq> RoomId room \<and>
      rooms (snd (CreateRoom rnd_B ''Second'' ''b'' ''bob'' s_created)) ''AAAAAA'' = Some r"
    using t(3) [THEN mp, OF h, rule_format, OF r] .
  have "CreateRoom rnd_B ''Second'' ''b'' ''bob'' s_created =
       (room, s_created\<lparr>rooms := (rooms s_created)(''BBBBBB'' \<mapsto> room),
                        playerRooms := (playerRooms s_created)(''b'' \<mapsto> ''BBBBBB'')\<rparr>) \<and>
      RoomId room = ''BBBBBB''"
    using t(1,2) unfolding g by (intro conjI)
  then have c: "\<exists>room. CreateRoom rnd_B ''Second'' ''b'' ''bob'' s_created =
       (room, s_created\<lparr>rooms := (rooms s_created)(''BBBBBB'' \<mapsto> room),
                        playerRooms := (playerRooms s_created)(''b'' \<mapsto> ''BBBBBB'')\<rparr>) \<and>
      RoomId room = ''BBBBBB''"
    by (rule exI [of _ room])
  have d: "''AAAAAA'' \<noteq> ''BBBBBB''" by simp
  have k: "map_option RoomName
      (rooms (snd (CreateRoom rnd_B ''Second'' ''b'' ''bob'' s_created)) ''AAAAAA'') =
     Some ''Word Warriors''"
    using kept n r by simp
  from h n c d k show ?thesis by (intro conjI)
qed

section \<open>Starting a round\<close>

lemma GenerateBoard_up: "GenerateBoard rnd_up = [''GOAF'', ''OORY'', ''DEIT'', ''SYHL'']"
  by (simp add: GenerateBoard_def shuffledDice_def BoggleDice_def upt_rec rnd_up_def)

lemma GenerateBoard_down: "GenerateBoard rnd_down = [''HUTS'', ''REEY'', ''VLMO'', ''ASOE'']"
  by (simp add: GenerateBoard_def shuffledDice_def BoggleDice_def upt_rec rnd_down_def)

lemma StartGame_host:
  assumes "playerRooms s cid = Some roomId" "rooms s roomId = Some room"
    "HostConnectionId room = cid" "1 \<le> d_count (Players room)"
  shows "StartGame rnd now cid s =
    ((True, ''Game started'',
      Some (room\<lparr>Board := GenerateBoard rnd, State := InProgress, GameStartTime := Some now,
                  Players := d_map_values (\<lambda>p. p\<lparr>Score := 0, FoundWords := []\<rparr>) (Players room)\<rparr>)),
     s\<lparr>rooms := (rooms s)(roomId \<mapsto>
          room\<lparr>Board := GenerateBoard rnd, State := InProgress, GameStartTime := Some now,
               Players := d_map_values (\<lambda>p. p\<lparr>Score := 0, FoundWords := []\<rparr>) (Players room)\<rparr>)\<rparr>)"
  using assms by (simp add: StartGame_def Let_def)

text \<open>
  C2 as stated says that \<open>StartGame\<close> is rejected while the room is in progress.
  \<open>StartGame\<close> does not read the state of the room: in the running round in which Bob
  has scored one point, Alice's second call succeeds, replaces the board and sets both
  scores to zero.
\<close>

theorem StartGame_in_progress_counterexample:
  "map_option (\<lambda>r. (State r, HostConnectionId r, Board r, map Score (d_values (Players r))))
     (rooms s_scored ''AAAAAA'') =
     Some (InProgress, ''a'', [''GOAF'', ''OORY'', ''DEIT'', ''SYHL''], [0, 1]) \<and>
   fst (fst (StartGame rnd_down 600000000 ''a'' s_scored)) = True \<and>
   map_option (\<lambda>r. (State r, Board r, map Score (d_values (Players r))))
     (rooms (snd (StartGame rnd_down 600000000 ''a'' s_scored)) ''AAAAAA'') =
     Some (InProgress, [''HUTS'', ''REEY'', ''VLMO'', ''ASOE''], [0, 0])"
  by (simp add: s_scored_eval StartGame_def d_count_def d_values_def d_map_values_def Let_def
      GenerateBoard_up GenerateBoard_down)

text \<open>
  C2, amended. A \<open>StartGame\<close> call by the host of the caller's room, the roster not
  being empty, succeeds in every state of the room, \<open>InProgress\<close> included: it stores a
  new board, sets the state to \<open>InProgress\<close>, stamps the start time and resets the score
  and the found words of every player; the roster keeps its members.
\<close>

theorem StartGame_by_host_any_state:
  assumes idx: "playerRooms s cid = Some roomId"
    and room: "rooms s roomId = Some room"
    and host: "HostConnectionId room = cid"
    and some: "1 \<le> d_count (Players room)"
  shows "\<exists>room'. StartGame rnd now cid s =
            ((True, ''Game started'', Some room'), s\<lparr>rooms := (rooms s)(roomId \<mapsto> room')\<rparr>) \<and>
          State room' = InProgress \<and> Board room' = GenerateBoard rnd \<and>
          GameStartTime room' = Some now \<and>
          d_keys (Players room') = d_keys (Players room) \<and>
          (\<forall>p\<in>set (d_values (Players room')). Score p = 0 \<and> FoundWords p = [])"
proof -
  let ?room = "room\<lparr>Board := GenerateBoard rnd, State := InProgress, GameStartTime := Some now,
      Players := d_map_values (\<lambda>p. p\<lparr>Score := 0, FoundWords := []\<rparr>) (Players room)\<rparr>"
  have "StartGame rnd now cid s =
      ((True, ''Game started'', Some ?room), s\<lparr>rooms := (rooms s)(roomId \<mapsto> ?room)\<rparr>)"
    using StartGame_host [OF idx room host some] .
  moreover have "d_keys (Players ?room) = d_keys (Players room)"
    by (simp add: d_keys_map_values)
  moreover have "\<forall>p\<in>set (d_values (Players ?room)). Score p = 0 \<and> FoundWords p = []"
    by (auto simp: d_values_map_values)
  ultimately show ?thesis
    by (intro exI [of _ ?room]) simp
qed

theorem StartGame_by_host_any_state_witness:
  "playerRooms s_scored ''a'' = Some ''AAAAAA'' \<and>
   (\<exists>room. rooms s_scored ''AAAAAA'' = Some room \<and> HostConnectionId room = ''a'' \<and>
      1 \<le> d_count (Players room) \<and> State room = InProgress \<and>
      (\<exists>room'. StartGame rnd_down 600000000 ''a'' s_scored =
            ((True, ''Game started'', Some room'),
             s_scored\<lparr>rooms := (rooms s_scored)(''AAAAAA'' \<mapsto> room')\<rparr>) \<and>
          State room' = InProgress \<and> Board room' = GenerateBoard rnd_down \<and>
          GameStartTime room' = Some 600000000 \<and>
          d_keys (Players room') = d_keys (Players room) \<and>
          (\<forall>p\<in>set (d_values (Players room')). Score p = 0 \<and> FoundWords p = [])))"
proof -
  obtain room where room: "rooms s_scored ''AAAAAA'' = Some room" by (simp add: s_scored_eval)
  have idx: "playerRooms s_scored ''a'' = Some ''AAAAAA''" by (simp add: s_scored_eval)
  have host: "HostConnectionId room = ''a''" using room by (auto simp: s_scored_eval)
  have some: "1 \<le> d_count (Players room)" using room by (auto simp: s_scored_eval d_count_def)
  have prog: "State room = InProgress" using room by (auto simp: s_scored_eval)
  note t = StartGame_by_host_any_state [OF idx room host some, of rnd_down 600000000]
  from room host some prog t
  have "rooms s_scored ''AAAAAA'' = Some room \<and> HostConnectionId room = ''a'' \<and>
      1 \<le> d_count (Players room) \<and> State room = InProgress \<and>
      (\<exists>room'. StartGame rnd_down 600000000 ''a'' s_scored =
            ((True, ''Game started'', Some room'),
             s_scored\<lparr>rooms := (rooms s_scored)(''AAAAAA'' \<mapsto> room')\<rparr>) \<and>
          State room' = InProgress \<and> Board room' = GenerateBoard rnd_down \<and>
          GameStartTime room' = Some 600000000 \<and>
          d_keys (Players room') = d_keys (Players room) \<and>
          (\<forall>p\<in>set (d_values (Players room')). Score p = 0 \<and> FoundWords p = []))"
    by (intro conjI)
  then have "\<exists>room. rooms s_scored ''AAAAAA'' = Some room \<and> HostConnectionId room = ''a'' \<and>
      1 \<le> d_count (Players room) \<and> State room = InProgress \<and>
      (\<exists>room'. StartGame rnd_down 600000000 ''a'' s_scored =
            ((True, ''Game started'', Some room'),
             s_scored\<lparr>rooms := (rooms s_scored)(''AAAAAA'' \<mapsto> room')\<rparr>) \<and>
          State room' = InProgress \<and> Board room' = GenerateBoard rnd_down \<and>
          GameStartTime room' = Some 600000000 \<and>
          d_keys (Players room') = d_keys (Players room) \<and>
          (\<forall>p\<in>set (d_values (Players room')). Score p = 0 \<and> FoundWords p = []))"
    by (rule exI [of _ room])
  with idx show ?thesis by (intro conjI)
qed

section \<open>Failures\<close>

lemma JoinRoom_failure: "\<not> fst (fst (JoinRoom roomId cid name s)) \<Longrightarrow> snd (JoinRoom roomId cid name s) = s"
  by (auto simp: JoinRoom_def Let_def split: option.splits if_splits)

lemma StartGame_failure: "\<not> fst (fst (StartGame rnd now cid s)) \<Longrightarrow> snd (StartGame rnd now cid s) = s"
  by (auto simp: StartGame_def Let_def split: option.splits if_splits)

lemma StartGame_room: "fst (fst (StartGame rnd now cid s)) \<Longrightarrow> snd (snd (fst (StartGame rnd now cid s))) \<noteq> None"
  by (auto simp: StartGame_def Let_def split: option.splits if_splits)

lemma LeaveRoom_failure:
  assumes "\<not> fst (fst (LeaveRoom cid s))"
  shows "rooms (snd (LeaveRoom cid s)) = rooms s"
    and "playerRooms (snd (LeaveRoom cid s)) = (playerRooms s)(cid := None)"
    and "playerRooms s cid = None \<longrightarrow> snd (LeaveRoom cid s) = s"
    and "\<forall>roomId. playerRooms s cid = Some roomId \<longrightarrow> rooms s roomId = None"
  using assms by (auto simp: LeaveRoom_def Let_def split: option.splits if_splits)

text \<open>
  C5 as stated says that an operation that returns a failure has changed nothing, and
  in particular that a failing \<open>LeaveRoom\<close> leaves the index entry of the caller in
  place. \<open>LeaveRoom\<close> removes the entry with \<open>TryRemove\<close> before it looks the room up:
  for Alice, whose entry names a room that is gone, the call returns a failure and her
  entry is gone too.
\<close>

theorem LeaveRoom_failure_counterexample:
  "playerRooms s_dangling ''a'' = Some ''AAAAAA'' \<and>
   fst (LeaveRoom ''a'' s_dangling) = (False, None, None) \<and>
   playerRooms (snd (LeaveRoom ''a'' s_dangling)) ''a'' = None"
  by (simp add: s_dangling_eval LeaveRoom_def)

text \<open>
  C5, amended. An operation that returns a failure leaves the room table and every room
  as they were, and the index too, with one exception: \<open>LeaveRoom\<close> of the service,
  called for a session whose index entry names a room that does not exist, removes
  that entry and then reports the failure. \<open>JoinRoom\<close> and \<open>StartGame\<close> of the service
  and the hub methods (whose \<open>LeaveRoom\<close> looks the room up first) change nothing when
  they fail.
\<close>

theorem failure_keeps_rooms:
  "(\<not> fst (fst (JoinRoom roomId cid name s)) \<longrightarrow> snd (JoinRoom roomId cid name s) = s) \<and>
   (\<not> fst (fst (StartGame rnd now cid s)) \<longrightarrow> snd (StartGame rnd now cid s) = s) \<and>
   (\<not> fst (fst (LeaveRoom cid s)) \<longrightarrow>
      rooms (snd (LeaveRoom cid s)) = rooms s \<and>
      playerRooms (snd (LeaveRoom cid s)) = (playerRooms s)(cid := None) \<and>
      (playerRooms s cid = None \<longrightarrow> snd (LeaveRoom cid s) = s) \<and>
      (\<forall>r. playerRooms s cid = Some r \<longrightarrow> rooms s r = None)) \<and>
   (failed (fst (Hub_JoinRoom now cid roomId name s)) \<longrightarrow>
      snd (snd (Hub_JoinRoom now cid roomId name s)) = s) \<and>
   (failed (fst (Hub_LeaveRoom now cid s)) \<longrightarrow> snd (snd (Hub_LeaveRoom now cid s)) = s) \<and>
   (failed (fst (Hub_StartGame rnd now cid s)) \<longrightarrow> snd (snd (Hub_StartGame rnd now cid s)) = s) \<and>
   (failed (fst (ResetGame now cid s)) \<longrightarrow> snd (snd (ResetGame now cid s)) = s) \<and>
   (failed (fst (SubmitWord cid w s)) \<longrightarrow> snd (snd (SubmitWord cid w s)) = s)"
proof (intro conjI impI)
  assume "\<not> fst (fst (JoinRoom roomId cid name s))"
  then show "snd (JoinRoom roomId cid name s) = s" by (rule JoinRoom_failure)
next
  assume "\<not> fst (fst (StartGame rnd now cid s))"
  then show "snd (StartGame rnd now cid s) = s" by (rule StartGame_failure)
next
  assume a: "\<not> fst (fst (LeaveRoom cid s))"
  show "rooms (snd (LeaveRoom cid s)) = rooms s" using a by (rule LeaveRoom_failure(1))
  show "playerRooms (snd (LeaveRoom cid s)) = (playerRooms s)(cid := None)"
    using a by (rule LeaveRoom_failure(2))
  show "\<forall>r. playerRooms s cid = Some r \<longrightarrow> rooms s r = None"
    using a by (rule LeaveRoom_failure(4))
  assume "playerRooms s cid = None"
  then show "snd (LeaveRoom cid s) = s" using LeaveRoom_failure(3) [OF a] by simp
next
  assume "failed (fst (Hub_JoinRoom now cid roomId name s))"
  then show "snd (snd (Hub_JoinRoom now cid roomId name s)) = s"
    using JoinRoom_failure [of roomId cid name s]
    by (auto simp: Hub_JoinRoom_def split: prod.splits if_splits)
next
  assume "failed (fst (Hub_LeaveRoom now cid s))"
  then show "snd (snd (Hub_LeaveRoom now cid s)) = s"
    by (auto simp: Hub_LeaveRoom_def Let_def split: option.splits prod.splits)
next
  assume "failed (fst (Hub_StartGame rnd now cid s))"
  then show "snd (snd (Hub_StartGame rnd now cid s)) = s"
    using StartGame_failure [of rnd now cid s] StartGame_room [of rnd now cid s]
    by (auto simp: Hub_StartGame_def Let_def split: prod.splits if_splits option.splits)
next
  assume "failed (fst (ResetGame now cid s))"
  then show "snd (snd (ResetGame now cid s)) = s"
    by (auto simp: ResetGame_def Let_def split: option.splits if_splits)
next
  assume "failed (fst (SubmitWord cid w s))"
  then show "snd (snd (SubmitWord cid w s)) = s"
    by (auto simp: SubmitWord_def Let_def split: option.splits if_splits)
qed

theorem failure_keeps_rooms_witness:
  "\<not> fst (fst (JoinRoom ''ZZZZZZ'' ''b'' ''bob'' s_created)) \<and>
   snd (JoinRoom ''ZZZZZZ'' ''b'' ''bob'' s_created) = s_created \<and>
   \<not> fst (fst (StartGame rnd_up 0 ''b'' s_lobby)) \<and>
   snd (StartGame rnd_up 0 ''b'' s_lobby) = s_lobby \<and>
   \<not> fst (fst (LeaveRoom ''a'' s_dangling)) \<and>
   playerRooms s_dangling ''a'' = Some ''AAAAAA'' \<and> rooms s_dangling ''AAAAAA'' = None \<and>
   rooms (snd (LeaveRoom ''a'' s_dangling)) = rooms s_dangling \<and>
   playerRooms (snd (LeaveRoom ''a'' s_dangling)) = (playerRooms s_dangling)(''a'' := None) \<and>
   \<not> fst (fst (LeaveRoom ''z'' s_created)) \<and> playerRooms s_created ''z'' = None \<and>
   snd (LeaveRoom ''z'' s_created) = s_created \<and>
   failed (fst (Hub_JoinRoom 0 ''c'' ''AAAAAA'' ''BOB'' s_lobby)) \<and>
   snd (snd (Hub_JoinRoom 0 ''c'' ''AAAAAA'' ''BOB'' s_lobby)) = s_lobby \<and>
   failed (fst (Hub_LeaveRoom 0 ''z'' s_lobby)) \<and>
   snd (snd (Hub_LeaveRoom 0 ''z'' s_lobby)) = s_lobby \<and>
   failed (fst (Hub_StartGame rnd_up 0 ''b'' s_lobby)) \<and>
   snd (snd (Hub_StartGame rnd_up 0 ''b'' s_lobby)) = s_lobby \<and>
   failed (fst (ResetGame 0 ''b'' s_finished)) \<and>
   snd (snd (ResetGame 0 ''b'' s_finished)) = s_finished \<and>
   failed (fst (SubmitWord ''b'' ''cat'' s_lobby)) \<and>
   snd (snd (SubmitWord ''b'' ''cat'' s_lobby)) = s_lobby \<and>
   fst (SubmitWord ''a'' ''cat'' s_stranger) = KeyNotFoundException \<and>
   snd (snd (SubmitWord ''a'' ''cat'' s_stranger)) = s_stranger"
proof -
  have h1: "\<not> fst (fst (JoinRoom ''ZZZZZZ'' ''b'' ''bob'' s_created))"
    by (simp add: s_created_eval JoinRoom_def)
  note c1 = failure_keeps_rooms [where roomId = "''ZZZZZZ''" and cid = "''b''"
      and name = "''bob''" and s = s_created, THEN conjunct1, THEN mp, OF h1]
  have h2: "\<not> fst (fst (StartGame rnd_up 0 ''b'' s_lobby))"
    by (simp add: s_lobby_eval StartGame_def)
  note c2 = failure_keeps_rooms [where rnd = rnd_up and now = 0 and cid = "''b''"
      and s = s_lobby, THEN conjunct2, THEN conjunct1, THEN mp, OF h2]
  have h3: "\<not> fst (fst (LeaveRoom ''a'' s_dangling))"
      "playerRooms s_dangling ''a'' = Some ''AAAAAA''" "rooms s_dangling ''AAAAAA'' = None"
    by (simp_all add: s_dangling_eval LeaveRoom_def)
  note c3 = failure_keeps_rooms [where cid = "''a''" and s = s_dangling,
      THEN conjunct2, THEN conjunct2, THEN conjunct1, THEN mp, OF h3(1)]
  have h4: "\<not> fst (fst (LeaveRoom ''z'' s_created))" "playerRooms s_created ''z'' = None"
    by (simp_all add: s_created_eval LeaveRoom_def)
  note c4 = failure_keeps_rooms [where cid = "''z''" and s = s_created,
      THEN conjunct2, THEN conjunct2, THEN conjunct1, THEN mp, OF h4(1), THEN conjunct2, THEN conjunct2,
      THEN conjunct1, THEN mp, OF h4(2)]
  have h5: "failed (fst (Hub_JoinRoom 0 ''c'' ''AAAAAA'' ''BOB'' s_lobby))"
    by (simp add: s_lobby_eval Hub_JoinRoom_def JoinRoom_def d_count_def d_values_def
        EqualsIgnoreCase_def ToUpper_def ToUpperChar_def)
  note c5 = failure_keeps_rooms [where now = 0 and cid = "''c''" and roomId = "''AAAAAA''"
      and name = "''BOB''" and s = s_lobby, THEN conjunct2, THEN conjunct2, THEN conjunct2, THEN conjunct1, THEN mp, OF h5]
  have h6: "failed (fst (Hub_LeaveRoom 0 ''z'' s_lobby))"
    by (simp add: s_lobby_eval Hub_LeaveRoom_def GetRoomByConnectionId_def)
  note c6 = failure_keeps_rooms [where now = 0 and cid = "''z''" and s = s_lobby,
      THEN conjunct2, THEN conjunct2, THEN conjunct2, THEN conjunct2, THEN conjunct1, THEN mp, OF h6]
  have h7: "failed (fst (Hub_StartGame rnd_up 0 ''b'' s_lobby))"
    by (simp add: s_lobby_eval Hub_StartGame_def StartGame_def)
  note c7 = failure_keeps_rooms [where rnd = rnd_up and now = 0 and cid = "''b''"
      and s = s_lobby, THEN conjunct2, THEN conjunct2, THEN conjunct2, THEN conjunct2, THEN conjunct2, THEN conjunct1, THEN mp, OF h7]
  have h8: "failed (fst (ResetGame 0 ''b'' s_finished))"
    by (simp add: s_finished_eval ResetGame_def GetRoomByConnectionId_def GetRoom_def)
  note c8 = failure_keeps_rooms [where now = 0 and cid = "''b''" and s = s_finished,
      THEN conjunct2, THEN conjunct2, THEN conjunct2, THEN conjunct2, THEN conjunct2, THEN conjunct2, THEN conjunct1, THEN mp, OF h8]
  have h9: "failed (fst (SubmitWord ''b'' ''cat'' s_lobby))"
    by (simp add: s_lobby_eval SubmitWord_def)
  note c9 = failure_keeps_rooms [where cid = "''b''" and w = "''cat''" and s = s_lobby,
      THEN conjunct2, THEN conjunct2, THEN conjunct2, THEN conjunct2, THEN conjunct2, THEN conjunct2, THEN conjunct2, THEN mp, OF h9]
  have h10: "fst (SubmitWord ''a'' ''cat'' s_stranger) = KeyNotFoundException"
    by (simp add: s_stranger_eval SubmitWord_def d_lookup_def)
  then have "failed (fst (SubmitWord ''a'' ''cat'' s_stranger))" by simp
  note c10 = failure_keeps_rooms [where cid = "''a''" and w = "''cat''" and s = s_stranger,
      THEN conjunct2, THEN conjunct2, THEN conjunct2, THEN conjunct2, THEN conjunct2, THEN conjunct2, THEN conjunct2, THEN mp, OF this]
  from h1 c1 h2 c2 h3 c3 [THEN conjunct1] c3 [THEN conjunct2, THEN conjunct1] h4 c4
    h5 c5 h6 c6 h7 c7 h8 c8 h9 c9 h10 c10
  show ?thesis by (intro conjI)
qed

section \<open>Index and rosters in lock-step\<close>

lemma lock_step_matches: "lock_step s \<Longrightarrow> index_matches_rosters s"
  unfolding lock_step_def index_matches_rosters_def
proof (intro allI iffI)
  fix cid
  assume l: "\<forall>cid roomId. (playerRooms s cid = Some roomId) = in_roster s cid roomId"
  {
    assume "cid \<in> dom (playerRooms s)"
    then obtain r where r: "playerRooms s cid = Some r" by auto
    then have "in_roster s cid r" using l by simp
    moreover have "r' = r" if "in_roster s cid r'" for r'
      using that l r by (metis option.inject)
    ultimately show "\<exists>!roomId. in_roster s cid roomId" by blast
  }
  {
    assume "\<exists>!roomId. in_roster s cid roomId"
    then obtain r where "in_roster s cid r" by blast
    then show "cid \<in> dom (playerRooms s)" using l by (metis domI)
  }
qed

text \<open>An operation that changes neither the index nor the keys of any roster.\<close>

lemma lock_step_same:
  assumes "lock_step s" "playerRooms s' = playerRooms s" "roster s' = roster s"
  shows "lock_step s'"
  using assms by (simp add: lock_step_def in_roster_def)

lemma roster_upd:
  "roster (s\<lparr>rooms := (rooms s)(r \<mapsto> room)\<rparr>) = (roster s)(r \<mapsto> d_keys (Players room))"
  by (auto simp: roster_def fun_eq_iff)

lemma roster_same_keys:
  assumes "rooms s r = Some room" "d_keys (Players room') = d_keys (Players room)"
  shows "roster (s\<lparr>rooms := (rooms s)(r \<mapsto> room')\<rparr>) = roster s"
  using assms by (auto simp: roster_def fun_eq_iff)

lemma rosters_wf_upd:
  assumes "rosters_wf s" "d_wf (Players room')"
  shows "rosters_wf (s\<lparr>rooms := (rooms s)(r \<mapsto> room')\<rparr>)"
  using assms by (auto simp: rosters_wf_def)

lemma StartGame_rosters:
  "playerRooms (snd (StartGame rnd now cid s)) = playerRooms s"
  "roster (snd (StartGame rnd now cid s)) = roster s"
  "rosters_wf s \<Longrightarrow> rosters_wf (snd (StartGame rnd now cid s))"
  by (auto simp: StartGame_def Let_def roster_same_keys d_keys_map_values rosters_wf_def
      d_wf_map_values split: option.splits)

lemma EndGame_rosters:
  "playerRooms (EndGame r s) = playerRooms s"
  "roster (EndGame r s) = roster s"
  "rosters_wf s \<Longrightarrow> rosters_wf (EndGame r s)"
  by (auto simp: EndGame_def roster_same_keys rosters_wf_def split: option.splits)

lemma ResetRoom_rosters:
  "playerRooms (ResetRoom r s) = playerRooms s"
  "roster (ResetRoom r s) = roster s"
  "rosters_wf s \<Longrightarrow> rosters_wf (ResetRoom r s)"
  by (auto simp: ResetRoom_def roster_same_keys d_keys_map_values rosters_wf_def
      d_wf_map_values split: option.splits)

lemma d_keys_set_lookup:
  "d_lookup d k = Some v0 \<Longrightarrow> d_keys (d_set k v d) = d_keys d"
  by (rule d_keys_set_member) (simp add: d_keys_dom domI)

lemma SubmitWord_rosters:
  "playerRooms (snd (snd (SubmitWord cid w s))) = playerRooms s"
  "roster (snd (snd (SubmitWord cid w s))) = roster s"
  "rosters_wf s \<Longrightarrow> rosters_wf (snd (snd (SubmitWord cid w s)))"
  by (auto simp: SubmitWord_def Let_def roster_same_keys d_keys_set_lookup rosters_wf_def
      d_wf_set split: option.splits)

lemma CreateRoom_state:
  "snd (CreateRoom rnd roomName cid username s) =
     s\<lparr>rooms := (rooms s)(GenerateRoomId rnd \<mapsto> fst (CreateRoom rnd roomName cid username s)),
       playerRooms := (playerRooms s)(cid \<mapsto> GenerateRoomId rnd)\<rparr>"
  "d_keys (Players (fst (CreateRoom rnd roomName cid username s))) = [cid]"
  "d_wf (Players (fst (CreateRoom rnd roomName cid username s)))"
proof -
  show "snd (CreateRoom rnd roomName cid username s) =
     s\<lparr>rooms := (rooms s)(GenerateRoomId rnd \<mapsto> fst (CreateRoom rnd roomName cid username s)),
       playerRooms := (playerRooms s)(cid \<mapsto> GenerateRoomId rnd)\<rparr>"
    by (simp add: CreateRoom_def Let_def)
  show "d_keys (Players (fst (CreateRoom rnd roomName cid username s))) = [cid]"
    by (simp add: CreateRoom_def Let_def d_keys_def d_set_def d_empty_def)
  show "d_wf (Players (fst (CreateRoom rnd roomName cid username s)))"
    by (simp add: CreateRoom_def Let_def d_wf_set d_wf_empty)
qed

lemma lock_stepD: "lock_step s \<Longrightarrow> (playerRooms s c = Some r) = in_roster s c r"
  by (simp add: lock_step_def)

lemma CreateRoom_lock_step:
  assumes "lock_step s" "playerRooms s cid = None" "rooms s (GenerateRoomId rnd) = None"
  shows "lock_step (snd (CreateRoom rnd roomName cid username s))"
proof -
  let ?code = "GenerateRoomId rnd"
  let ?s = "snd (CreateRoom rnd roomName cid username s)"
  note l = lock_stepD [OF assms(1)]
  have i: "playerRooms ?s = (playerRooms s)(cid \<mapsto> ?code)"
    by (simp add: CreateRoom_state(1))
  have r: "roster ?s = (roster s)(?code \<mapsto> [cid])"
    by (simp add: CreateRoom_state(1,2) roster_def fun_eq_iff)
  have ir: "in_roster ?s c r \<longleftrightarrow> (if r = ?code then c = cid else in_roster s c r)" for c r
    by (simp add: in_roster_def r)
  have nc: "\<not> in_roster s cid r" for r
    using assms(2) l [of cid r] by simp
  have np: "\<not> in_roster s c ?code" for c
    using assms(3) by (simp add: in_roster_def roster_def)
  show ?thesis
    unfolding lock_step_def using nc np by (auto simp: i ir l)
qed

lemma JoinRoom_state:
  "snd (JoinRoom roomId cid name s) = s \<or>
   (\<exists>room. rooms s roomId = Some room \<and>
      snd (JoinRoom roomId cid name s) =
        s\<lparr>rooms := (rooms s)(roomId \<mapsto>
             room\<lparr>Players := d_set cid (new_Player cid name) (Players room)\<rparr>),
          playerRooms := (playerRooms s)(cid \<mapsto> roomId)\<rparr>)"
  by (auto simp: JoinRoom_def Let_def split: option.splits)

lemma JoinRoom_lock_step:
  assumes "lock_step s" "rosters_wf s" "playerRooms s cid = None"
  shows "lock_step (snd (JoinRoom roomId cid name s)) \<and> rosters_wf (snd (JoinRoom roomId cid name s))"
proof -
  let ?s = "snd (JoinRoom roomId cid name s)"
  note l = lock_stepD [OF assms(1)]
  from JoinRoom_state [of roomId cid name s] show ?thesis
  proof
    assume "?s = s"
    then show ?thesis using assms by simp
  next
    assume "\<exists>room. rooms s roomId = Some room \<and> ?s =
        s\<lparr>rooms := (rooms s)(roomId \<mapsto>
             room\<lparr>Players := d_set cid (new_Player cid name) (Players room)\<rparr>),
          playerRooms := (playerRooms s)(cid \<mapsto> roomId)\<rparr>"
    then obtain room where room: "rooms s roomId = Some room" and e: "?s =
        s\<lparr>rooms := (rooms s)(roomId \<mapsto>
             room\<lparr>Players := d_set cid (new_Player cid name) (Players room)\<rparr>),
          playerRooms := (playerRooms s)(cid \<mapsto> roomId)\<rparr>" by blast
    let ?d = "d_set cid (new_Player cid name) (Players room)"
    have wf: "d_wf (Players room)" using assms(2) room by (auto simp: rosters_wf_def)
    then have wf': "d_wf ?d" by (rule d_wf_set)
    have k: "set (d_keys ?d) = insert cid (set (d_keys (Players room)))"
      using wf by (simp add: d_keys_dom d_lookup_set)
    have i: "playerRooms ?s = (playerRooms s)(cid \<mapsto> roomId)" by (simp add: e)
    have r: "roster ?s = (roster s)(roomId \<mapsto> d_keys ?d)"
      by (simp add: e roster_def fun_eq_iff)
    have r0: "roster s roomId = Some (d_keys (Players room))" using room by (simp add: roster_def)
    have ir: "in_roster ?s c r \<longleftrightarrow>
        (if r = roomId then c = cid \<or> in_roster s c roomId else in_roster s c r)" for c r
      using k r0 by (auto simp: in_roster_def r)
    have nc: "\<not> in_roster s cid r" for r
      using assms(3) l [of cid r] by simp
    have "lock_step ?s"
      unfolding lock_step_def using nc by (auto simp: i ir l)
    moreover have "rosters_wf ?s"
      using assms(2) wf' by (auto simp: e rosters_wf_def)
    ultimately show ?thesis by simp
  qed
qed

lemma LeaveRoom_lock_step:
  assumes "lock_step s" "rosters_wf s"
  shows "lock_step (snd (LeaveRoom cid s)) \<and> rosters_wf (snd (LeaveRoom cid s))"
proof (cases "playerRooms s cid")
  case None
  then show ?thesis using assms by (simp add: LeaveRoom_def)
next
  case (Some r0)
  note l = lock_stepD [OF assms(1)]
  have "in_roster s cid r0" using Some l [of cid r0] by simp
  then obtain room where room: "rooms s r0 = Some room" and mem: "cid \<in> set (d_keys (Players room))"
    by (auto simp: in_roster_def roster_def)
  let ?s = "snd (LeaveRoom cid s)"
  let ?d = "d_remove cid (Players room)"
  have wf: "d_wf (Players room)" using assms(2) room by (auto simp: rosters_wf_def)
  then have wf': "d_wf ?d" by (rule d_wf_remove)
  have k: "set (d_keys ?d) = set (d_keys (Players room)) - {cid}"
    using wf by (simp add: d_keys_remove d_wf_def)
  have r0: "roster s r0 = Some (d_keys (Players room))" using room by (simp add: roster_def)
  have i: "playerRooms ?s = (playerRooms s)(cid := None)"
    using Some room by (simp add: LeaveRoom_def Let_def)
  have only: "\<not> in_roster s cid r" if "r \<noteq> r0" for r
    using that Some l [of cid r] by simp
  show ?thesis
  proof (cases "d_count ?d = 0")
    case True
    then have empty: "set (d_keys (Players room)) \<subseteq> {cid}"
      using k by (simp add: d_count_keys)
    have e: "rooms ?s = (rooms s)(r0 := None)"
      using Some room True by (simp add: LeaveRoom_def Let_def)
    then have r: "roster ?s = (roster s)(r0 := None)"
      by (simp add: roster_def fun_eq_iff)
    have ir: "in_roster ?s c r \<longleftrightarrow> r \<noteq> r0 \<and> in_roster s c r" for c r
      by (simp add: in_roster_def r)
    have alone: "c = cid" if "in_roster s c r0" for c
      using that r0 empty by (auto simp: in_roster_def)
    have "lock_step ?s"
      unfolding lock_step_def using only alone by (auto simp: i ir l)
    moreover have "rosters_wf ?s" using assms(2) by (auto simp: e rosters_wf_def)
    ultimately show ?thesis by simp
  next
    case False
    define room' where "room' =
      (if HostConnectionId room = cid
       then room\<lparr>Players := ?d, HostConnectionId := hd (d_keys ?d)\<rparr>
       else room\<lparr>Players := ?d\<rparr>)"
    have e: "rooms ?s = (rooms s)(r0 \<mapsto> room')"
      using Some room False by (simp add: LeaveRoom_def Let_def room'_def)
    have p: "Players room' = ?d" by (simp add: room'_def)
    from e p have r: "roster ?s = (roster s)(r0 \<mapsto> d_keys ?d)"
      by (simp add: roster_def fun_eq_iff)
    have ir: "in_roster ?s c r \<longleftrightarrow>
        (if r = r0 then c \<noteq> cid \<and> in_roster s c r0 else in_roster s c r)" for c r
      using k r0 by (auto simp: in_roster_def r)
    have "lock_step ?s"
      unfolding lock_step_def using only by (auto simp: i ir l)
    moreover have "rosters_wf ?s" using assms(2) wf' p by (auto simp: e rosters_wf_def)
    ultimately show ?thesis by simp
  qed
qed


lemma hub_states:
  "snd (snd (Hub_CreateRoom rnd now cid roomName username s)) =
     snd (CreateRoom rnd roomName cid username s)"
  "snd (snd (Hub_JoinRoom now cid roomId username s)) = snd (JoinRoom roomId cid username s)"
  "snd (snd (Hub_LeaveRoom now cid s)) = s \<or>
   snd (snd (Hub_LeaveRoom now cid s)) = snd (LeaveRoom cid s)"
  "snd (snd (Hub_StartGame rnd now cid s)) = snd (StartGame rnd now cid s)"
  "snd (snd (ResetGame now cid s)) = s \<or>
   (\<exists>r. snd (snd (ResetGame now cid s)) = ResetRoom r s)"
  "snd (OnDisconnectedAsync now cid s) = snd (LeaveRoom cid s)"
  "snd (EndGameInternal now roomId s) = s \<or> snd (EndGameInternal now roomId s) = EndGame roomId s"
  by (auto simp: Hub_CreateRoom_def Hub_JoinRoom_def Hub_LeaveRoom_def Hub_StartGame_def
      ResetGame_def OnDisconnectedAsync_def EndGameInternal_def Let_def
      split: prod.splits option.splits)

lemma step_lock_step:
  assumes l: "lock_step s" and wf: "rosters_wf s" and a: "allowed c s"
  shows "lock_step (step c s) \<and> rosters_wf (step c s)"
proof -
  obtain now cid i where c: "c = (now, cid, i)" by (cases c)
  show ?thesis
  proof (cases i)
    case (InvCreateRoom rnd roomName username)
    then have g: "playerRooms s cid = None" "rooms s (GenerateRoomId rnd) = None"
      using a c by simp_all
    have "rosters_wf (snd (CreateRoom rnd roomName cid username s))"
      using wf CreateRoom_state(3) [of rnd roomName cid username s]
      by (auto simp: CreateRoom_state(1) rosters_wf_def)
    then show ?thesis
      using CreateRoom_lock_step [OF l g] c InvCreateRoom by (simp add: hub_states)
  next
    case (InvJoinRoom roomId username)
    then have "playerRooms s cid = None" using a c by simp
    from JoinRoom_lock_step [OF l wf this] show ?thesis
      using c InvJoinRoom by (simp add: hub_states)
  next
    case InvLeaveRoom
    then show ?thesis
      using hub_states(3) [of now cid s] LeaveRoom_lock_step [OF l wf, of cid] l wf c by auto
  next
    case (InvStartGame rnd)
    then show ?thesis
      using lock_step_same [OF l StartGame_rosters(1,2)] StartGame_rosters(3) [OF wf] c
      by (simp add: hub_states)
  next
    case InvResetGame
    then show ?thesis
      using hub_states(5) [of now cid s] lock_step_same [OF l ResetRoom_rosters(1,2)]
        ResetRoom_rosters(3) [OF wf] l wf c by auto
  next
    case (InvSubmitWord w)
    then show ?thesis
      using lock_step_same [OF l SubmitWord_rosters(1,2)] SubmitWord_rosters(3) [OF wf] c
      by simp
  next
    case InvDisconnect
    then show ?thesis
      using LeaveRoom_lock_step [OF l wf, of cid] c by (simp add: hub_states)
  next
    case (InvTimer roomId)
    then show ?thesis
      using hub_states(7) [of now roomId s] lock_step_same [OF l EndGame_rosters(1,2)]
        EndGame_rosters(3) [OF wf] l wf c by auto
  qed
qed

lemma run_lock_step:
  "lock_step s \<Longrightarrow> rosters_wf s \<Longrightarrow> guarded cs s \<Longrightarrow>
   lock_step (run cs s) \<and> rosters_wf (run cs s)"
proof (induction cs arbitrary: s)
  case Nil
  then show ?case by simp
next
  case (Cons c cs)
  then have "lock_step (step c s) \<and> rosters_wf (step c s)"
    using step_lock_step [of s c] by simp
  then show ?case using Cons by simp
qed

lemma new_GameService_lock_step: "lock_step new_GameService" "rosters_wf new_GameService"
  by (simp_all add: lock_step_def rosters_wf_def in_roster_def roster_def new_GameService_def)

text \<open>Without the guard, the rosters still are well-formed dictionaries.\<close>

lemma step_rosters_wf:
  assumes wf: "rosters_wf s"
  shows "rosters_wf (step c s)"
proof -
  obtain now cid i where c: "c = (now, cid, i)" by (cases c)
  have join: "rosters_wf (snd (JoinRoom roomId cid name s))" for roomId name
    using wf JoinRoom_state [of roomId cid name s]
    by (auto simp: rosters_wf_def d_wf_set split: if_splits)
  have leave: "rosters_wf (snd (LeaveRoom cid s))"
    using wf
    by (auto simp: LeaveRoom_def Let_def rosters_wf_def d_wf_remove split: option.splits if_splits)
  show ?thesis
  proof (cases i)
    case (InvCreateRoom rnd roomName username)
    then show ?thesis
      using wf CreateRoom_state(3) [of rnd roomName cid username s] c
      by (auto simp: hub_states CreateRoom_state(1) rosters_wf_def)
  next
    case (InvJoinRoom roomId username)
    then show ?thesis using join c by (simp add: hub_states)
  next
    case InvLeaveRoom
    then show ?thesis using hub_states(3) [of now cid s] leave wf c by auto
  next
    case (InvStartGame rnd)
    then show ?thesis using StartGame_rosters(3) [OF wf] c by (simp add: hub_states)
  next
    case InvResetGame
    then show ?thesis
      using hub_states(5) [of now cid s] ResetRoom_rosters(3) [OF wf] wf c by auto
  next
    case (InvSubmitWord w)
    then show ?thesis using SubmitWord_rosters(3) [OF wf] c by simp
  next
    case InvDisconnect
    then show ?thesis using leave c by (simp add: hub_states)
  next
    case (InvTimer roomId)
    then show ?thesis
      using hub_states(7) [of now roomId s] EndGame_rosters(3) [OF wf] wf c by auto
  qed
qed

lemma run_rosters_wf: "rosters_wf s \<Longrightarrow> rosters_wf (run cs s)"
  by (induction cs arbitrary: s) (simp_all add: step_rosters_wf)

lemma reachable_d_wf:
  "rooms (run cs new_GameService) roomId = Some room \<Longrightarrow> d_wf (Players room)"
  using run_rosters_wf [OF new_GameService_lock_step(2), of cs] by (simp add: rosters_wf_def)

lemma collision_breaks_index:
  "playerRooms s_collided ''a'' = Some ''AAAAAA'' \<and> roster s_collided ''AAAAAA'' = Some [''b'']"
  by (simp add: s_collided_eval roster_def d_keys_def)

text \<open>
  C4 as stated says that after every sequence of operations a session is in the index
  iff it is in the roster of exactly one room. Neither \<open>CreateRoom\<close> nor \<open>JoinRoom\<close>
  looks whether the session is in a room already: when Alice, who created a room, joins
  Bob's room, she is indexed to Bob's room and is in both rosters.
\<close>

theorem index_rosters_counterexample:
  "playerRooms s_two_rooms ''a'' = Some ''BBBBBB'' \<and>
   roster s_two_rooms ''AAAAAA'' = Some [''a''] \<and>
   roster s_two_rooms ''BBBBBB'' = Some [''b'', ''a''] \<and>
   \<not> index_matches_rosters s_two_rooms"
proof -
  have r: "roster s_two_rooms ''AAAAAA'' = Some [''a'']"
      "roster s_two_rooms ''BBBBBB'' = Some [''b'', ''a'']"
    by (simp_all add: s_two_rooms_eval roster_def d_keys_def)
  then have "in_roster s_two_rooms ''a'' ''AAAAAA''" "in_roster s_two_rooms ''a'' ''BBBBBB''"
    by (simp_all add: in_roster_def)
  moreover have "''AAAAAA'' \<noteq> ''BBBBBB''" by simp
  ultimately have "\<not> (\<exists>!roomId. in_roster s_two_rooms ''a'' roomId)" by blast
  moreover have i: "playerRooms s_two_rooms ''a'' = Some ''BBBBBB''"
    by (simp add: s_two_rooms_eval)
  ultimately have "\<not> index_matches_rosters s_two_rooms"
    unfolding index_matches_rosters_def by blast
  with i r show ?thesis by simp
qed

text \<open>
  C4, amended. After every sequence of operations in which a session creates or joins a
  room only while it has no index entry, and every creation draws a code that no live
  room has, a session is in the index iff it is in the roster of exactly one room, and
  the index names that room.
\<close>

theorem guarded_run_index_matches_rosters:
  assumes "guarded cs new_GameService"
  shows "index_matches_rosters (run cs new_GameService) \<and> lock_step (run cs new_GameService)"
  using run_lock_step [OF new_GameService_lock_step assms] lock_step_matches by blast

theorem guarded_run_index_matches_rosters_witness:
  "guarded full_game new_GameService \<and>
   index_matches_rosters (run full_game new_GameService) \<and>
   lock_step (run full_game new_GameService) \<and>
   playerRooms (run full_game new_GameService) = [''b'' \<mapsto> ''AAAAAA''] \<and>
   roster (run full_game new_GameService) ''AAAAAA'' = Some [''b'']"
proof -
  have g: "guarded full_game new_GameService"
    by (simp add: full_game_def ev)
  have r: "playerRooms (run full_game new_GameService) = [''b'' \<mapsto> ''AAAAAA'']"
      "roster (run full_game new_GameService) ''AAAAAA'' = Some [''b'']"
    by (simp_all add: full_game_def roster_def ev)
  show ?thesis
    using guarded_run_index_matches_rosters [OF g] g r by simp
qed

section \<open>The snapshot of a finished room\<close>

lemma GetGameState_board:
  "rooms s roomId = Some room \<Longrightarrow>
   map_option dtoBoard (GetGameState now roomId s) =
     Some (if State room = InProgress then Some (ToJaggedArray (Board room)) else None)"
  by (simp add: GetGameState_def GetRoom_def Let_def)

lemma BoggleDice_faces:
  "die \<in> set BoggleDice \<Longrightarrow> length die = 6 \<and> CHR 0x00 \<notin> set die"
  by (auto simp: BoggleDice_def)

lemma shuffledDice_perm:
  "length (shuffledDice rnd) = 16" "set (shuffledDice rnd) = set BoggleDice"
proof -
  have l: "length (map rnd [0 ..< 16]) = length BoggleDice" by (simp add: BoggleDice_def)
  show "length (shuffledDice rnd) = 16"
    by (simp add: shuffledDice_def BoggleDice_def)
  have "set (shuffledDice rnd) = snd ` set (zip (map rnd [0 ..< 16]) BoggleDice)"
    by (simp add: shuffledDice_def)
  also have "\<dots> = set (map snd (zip (map rnd [0 ..< 16]) BoggleDice))" by simp
  also have "\<dots> = set BoggleDice" using l by (simp only: map_snd_zip)
  finally show "set (shuffledDice rnd) = set BoggleDice" .
qed

lemma GenerateBoard_not_blank: "GenerateBoard rnd \<noteq> new_board"
proof -
  let ?die = "shuffledDice rnd ! 0"
  have "?die \<in> set (shuffledDice rnd)"
    by (rule nth_mem) (simp add: shuffledDice_perm(1))
  then have d: "length ?die = 6" "CHR 0x00 \<notin> set ?die"
    using BoggleDice_faces [of ?die] by (simp_all add: shuffledDice_perm(2))
  then have "?die ! (rnd 16 mod length ?die) \<in> set ?die"
    by (intro nth_mem) simp
  then have "?die ! (rnd 16 mod length ?die) \<noteq> CHR 0x00" using d(2) by metis
  moreover have "hd (hd (GenerateBoard rnd)) = ?die ! (rnd 16 mod length ?die)"
    by (simp add: GenerateBoard_def Let_def)
  moreover have "hd (hd new_board) = CHR 0x00"
    by (simp add: new_board_def)
  ultimately show ?thesis by metis
qed

lemma step_board:
  assumes b: "board_matches_state s"
  shows "board_matches_state (step c s)"
proof -
  obtain now cid i where c: "c = (now, cid, i)" by (cases c)
  have leave: "board_matches_state (snd (LeaveRoom cid s))"
    using b
    by (auto simp: LeaveRoom_def Let_def board_matches_state_def split: option.splits if_splits)
  show ?thesis
  proof (cases i)
    case (InvCreateRoom rnd roomName username)
    then show ?thesis
      using b c by (auto simp: hub_states CreateRoom_def Let_def board_matches_state_def)
  next
    case (InvJoinRoom roomId username)
    then show ?thesis
      using b c JoinRoom_state [of roomId cid username s]
      by (auto simp: hub_states board_matches_state_def split: if_splits)
  next
    case InvLeaveRoom
    then show ?thesis using hub_states(3) [of now cid s] leave b c by auto
  next
    case (InvStartGame rnd)
    then show ?thesis
      using b c GenerateBoard_not_blank [of rnd]
      by (auto simp: hub_states StartGame_def Let_def board_matches_state_def
          split: option.splits if_splits)
  next
    case InvResetGame
    then show ?thesis
      using b c
      by (auto simp: ResetGame_def ResetRoom_def Let_def board_matches_state_def
          split: option.splits if_splits)
  next
    case (InvSubmitWord w)
    then show ?thesis
      using b c
      by (auto simp: SubmitWord_def Let_def board_matches_state_def
          split: option.splits if_splits)
  next
    case InvDisconnect
    then show ?thesis using leave c by (simp add: hub_states)
  next
    case (InvTimer roomId)
    then show ?thesis
      using b c
      by (auto simp: EndGameInternal_def EndGame_def GetRoom_def Let_def board_matches_state_def
          split: option.splits if_splits)
  qed
qed

lemma run_board: "board_matches_state s \<Longrightarrow> board_matches_state (run cs s)"
  by (induction cs arbitrary: s) (simp_all add: step_board)

lemma reachable_board:
  "rooms (run cs new_GameService) roomId = Some room \<Longrightarrow>
   (Board room = new_board \<longleftrightarrow> State room = Waiting)"
proof -
  have "board_matches_state new_GameService"
    by (simp add: board_matches_state_def new_GameService_def)
  then have "board_matches_state (run cs new_GameService)" by (rule run_board)
  then show "rooms (run cs new_GameService) roomId = Some room \<Longrightarrow>
      (Board room = new_board \<longleftrightarrow> State room = Waiting)"
    by (simp add: board_matches_state_def)
qed

text \<open>
  C3. In the rooms of every reachable state the board is the blank grid of
  \<open>new char[4, 4]\<close> iff the state is \<open>Waiting\<close> (\<open>reachable_board\<close>), and a finished room
  keeps the board of its round. But \<open>GetGameState\<close> puts the board into the snapshot
  only while the state is \<open>InProgress\<close> (\<open>GetGameState_board\<close>): after the round timer
  has fired, the snapshot of the finished room, which is the one sent with \<open>GameEnded\<close>,
  has no board.
\<close>

theorem Finished_snapshot_omits_board:
  "map_option (\<lambda>r. (State r, Board r)) (rooms s_finished ''AAAAAA'') =
     Some (Finished, [''GOAF'', ''OORY'', ''DEIT'', ''SYHL'']) \<and>
   map_option (\<lambda>d. (dtoState d, dtoBoard d)) (GetGameState 1800000000 ''AAAAAA'' s_finished) =
     Some (Finished, None) \<and>
   EndGameInternal 1800000000 ''AAAAAA'' s_scored =
     ([(Group ''AAAAAA'', GameEnded (GetGameState 1800000000 ''AAAAAA'' s_finished))], s_finished)"
  by (simp add: s_finished_eval s_scored_eval GetGameState_def GetRoom_def GenerateBoard_up
      EndGameInternal_def EndGame_def Let_def)

end
